theory Spec2Isabelle
  imports Complex_Main
begin

section \<open>Tensors and the torch primitives the kernels call\<close>

text \<open>
  The kernels of \<^verbatim>\<open>torch/quantization/_learnable_fake_quantize.py\<close> are written
  against torch tensors. A tensor is modelled by its shape and by the value it holds at
  every multi-index; tensor elements are real numbers, so the arithmetic below is exact:
  the rounding of a floating-point format is not part of the model, and neither are the
  non-finite values that a division by a zero scale produces (in HOL \<open>x / 0 = 0\<close>), so a
  scale of zero lies outside the model and the results on the kernels assume a nonzero
  scale. Boolean masks and int64 tensors are tensors of
  \<open>bool\<close> and \<open>int\<close>. The tensor library itself is not among the sources; its
  elementwise operations, broadcasting, indexing, reshaping and permuting are written out
  here as the kernels use them.
\<close>

record 'a tensor =
  shape :: "nat list"
  elem :: "nat list \<Rightarrow> 'a"

datatype error = IndexError | ShapeError | KeyError

text \<open>The multi-indices of a shape, in row-major order.\<close>

fun all_indices :: "nat list \<Rightarrow> nat list list" where
  "all_indices [] = [[]]"
| "all_indices (n # ns) = concat (map (\<lambda>i. map ((#) i) (all_indices ns)) [0..<n])"

definition valid_index :: "nat list \<Rightarrow> nat list \<Rightarrow> bool" where
  "valid_index s idx = list_all2 (\<lambda>i n. i < n) idx s"

text \<open>A Python scalar used in tensor arithmetic behaves as a zero-dimensional tensor.\<close>

definition scalar :: "'a \<Rightarrow> 'a tensor" where
  "scalar v = \<lparr>shape = [], elem = \<lambda>_. v\<rparr>"

text \<open>A one-dimensional tensor holding the elements of a list.\<close>

definition of_list :: "'a list \<Rightarrow> 'a tensor" where
  "of_list xs = \<lparr>shape = [length xs], elem = \<lambda>idx. xs ! hd idx\<rparr>"

definition to_list :: "'a tensor \<Rightarrow> 'a list" where
  "to_list T = map (elem T) (all_indices (shape T))"

definition tmap :: "('a \<Rightarrow> 'b) \<Rightarrow> 'a tensor \<Rightarrow> 'b tensor" where
  "tmap f T = \<lparr>shape = shape T, elem = \<lambda>idx. f (elem T idx)\<rparr>"

text \<open>
  Broadcasting of a binary elementwise operation: shapes are aligned at their last
  dimension, a dimension of size one is stretched, and the operand is read at index zero
  along every stretched dimension. Torch raises when two shapes cannot be broadcast
  together; \<open>tmap2\<close> is total, and the results below are stated for operands whose shapes
  agree (tensors of the shape of \<open>X\<close>, scalars, and tensors of the shape of the axis mask).
\<close>

definition bshape :: "nat list \<Rightarrow> nat list \<Rightarrow> nat list" where
  "bshape s t =
     (let n = max (length s) (length t);
          s' = replicate (n - length s) 1 @ s;
          t' = replicate (n - length t) 1 @ t
      in map2 (\<lambda>a b. if a = 1 then b else a) s' t')"

definition bidx :: "nat list \<Rightarrow> nat list \<Rightarrow> nat list" where
  "bidx s idx = map2 (\<lambda>n i. if n = 1 then 0 else i) s (drop (length idx - length s) idx)"

definition broadcastable_to :: "nat list \<Rightarrow> nat list \<Rightarrow> bool" where
  "broadcastable_to t s \<longleftrightarrow>
     length t \<le> length s \<and> list_all2 (\<lambda>a b. a = b \<or> a = 1) t (drop (length s - length t) s)"

definition tmap2 :: "('a \<Rightarrow> 'b \<Rightarrow> 'c) \<Rightarrow> 'a tensor \<Rightarrow> 'b tensor \<Rightarrow> 'c tensor" where
  "tmap2 f A B =
     \<lparr>shape = bshape (shape A) (shape B),
      elem = \<lambda>idx. f (elem A (bidx (shape A) idx)) (elem B (bidx (shape B) idx))\<rparr>"

definition zeros_like :: "real tensor \<Rightarrow> real tensor" where
  "zeros_like T = \<lparr>shape = shape T, elem = \<lambda>_. 0\<rparr>"

definition ones :: "nat list \<Rightarrow> real tensor" where
  "ones s = \<lparr>shape = s, elem = \<lambda>_. 1\<rparr>"

text \<open>
  Modelled from the spec: \<^verbatim>\<open>torch.round\<close>, the rounding of the platform, is not
  among the sources. The specification names round-half-to-even: the nearest integer, and
  at an exact tie the even neighbour; the result is still a floating-point value.
\<close>

definition torch_round :: "real \<Rightarrow> real" where
  "torch_round x =
     (let f = \<lfloor>x\<rfloor>; d = x - of_int f
      in of_int (if d < 1 / 2 then f else if 1 / 2 < d then f + 1
                 else if even f then f else f + 1))"

text \<open>\<^verbatim>\<open>Tensor.clamp(min, max)\<close> on one element: \<open>min(max(x, lo), hi)\<close>.\<close>

definition clamp_val :: "real \<Rightarrow> int \<Rightarrow> int \<Rightarrow> real" where
  "clamp_val x lo hi = min (max x (of_int lo)) (of_int hi)"

definition tclamp :: "real tensor \<Rightarrow> int \<Rightarrow> int \<Rightarrow> real tensor" where
  "tclamp T lo hi = tmap (\<lambda>v. clamp_val v lo hi) T"

text \<open>
  Python's \<^verbatim>\<open>int(float)\<close> and the cast \<^verbatim>\<open>.type(torch.int64)\<close> both drop the
  fractional part: they truncate towards zero.
\<close>

definition py_int :: "real \<Rightarrow> int" where
  "py_int x = (if 0 \<le> x then \<lfloor>x\<rfloor> else - \<lfloor>- x\<rfloor>)"

text \<open>\<^verbatim>\<open>Tensor.sum()\<close> adds every element up; the result is zero-dimensional.\<close>

definition sum_all :: "real tensor \<Rightarrow> real tensor" where
  "sum_all T = scalar (sum_list (map (elem T) (all_indices (shape T))))"

definition unsqueeze0 :: "'a tensor \<Rightarrow> 'a tensor" where
  "unsqueeze0 T = \<lparr>shape = 1 # shape T, elem = \<lambda>idx. elem T (tl idx)\<rparr>"

text \<open>
  \<^verbatim>\<open>res[mask] = src[mask]\<close> with a boolean mask: the mask covers the leading
  dimensions of both tensors, and indexing raises when its shape does not fit them.
\<close>

definition masked_assign :: "'a tensor \<Rightarrow> bool tensor \<Rightarrow> 'a tensor \<Rightarrow> error + 'a tensor" where
  "masked_assign res bmask src =
     (let m = length (shape bmask)
      in if shape bmask = take m (shape res) \<and> shape bmask = take m (shape src)
         then Inr \<lparr>shape = shape res,
                   elem = \<lambda>idx. if elem bmask (take m idx) then elem src idx else elem res idx\<rparr>
         else Inl IndexError)"

section \<open>The reference helpers\<close>

text \<open>
  \<^verbatim>\<open>_quantize(x, scale, zp, q_min, q_max, clamp=True)\<close>:
  \<^verbatim>\<open>xq = torch.round(x * (1.0 / scale) + zp)\<close>, clamped on request.
\<close>

definition quantize ::
  "real tensor \<Rightarrow> real tensor \<Rightarrow> real tensor \<Rightarrow> int \<Rightarrow> int \<Rightarrow> bool \<Rightarrow> real tensor" where
  "quantize x scale zp q_min q_max clamp =
     (let xq = tmap torch_round (tmap2 (+) (tmap2 (*) x (tmap (\<lambda>s. 1 / s) scale)) zp)
      in if clamp then tclamp xq q_min q_max else xq)"

text \<open>
  \<^verbatim>\<open>_calculate_X_grad_per_tensor\<close>:
  \<^verbatim>\<open>mask = (Xq >= quant_min) * (Xq <= quant_max)\<close>, then the masked copy of
  \<^verbatim>\<open>grad_Y\<close> into a tensor of zeros.
\<close>

definition calculate_X_grad_per_tensor ::
  "real tensor \<Rightarrow> real tensor \<Rightarrow> real tensor \<Rightarrow> real tensor \<Rightarrow> real tensor \<Rightarrow> int \<Rightarrow> int
     \<Rightarrow> error + real tensor" where
  "calculate_X_grad_per_tensor grad_Y X Xq scale zero_point quant_min quant_max =
     (let bmask = tmap2 (\<and>) (tmap (\<lambda>v. of_int quant_min \<le> v) Xq)
                               (tmap (\<lambda>v. v \<le> of_int quant_max) Xq);
          res = zeros_like grad_Y
      in masked_assign res bmask grad_Y)"

text \<open>The regime indicators of \<^verbatim>\<open>_calculate_scale_grad\<close>.\<close>

definition indicate_small_scale :: "real tensor \<Rightarrow> int \<Rightarrow> real tensor" where
  "indicate_small_scale X_q q_min = tmap (\<lambda>v. if v = of_int q_min then 1 else 0) X_q"

definition indicate_big_scale :: "real tensor \<Rightarrow> int \<Rightarrow> real tensor" where
  "indicate_big_scale X_q q_max = tmap (\<lambda>v. if v = of_int q_max then 1 else 0) X_q"

definition indicate_middle_scale :: "real tensor \<Rightarrow> int \<Rightarrow> int \<Rightarrow> real tensor" where
  "indicate_middle_scale X_q q_min q_max =
     tmap2 (-) (tmap2 (-) (ones (shape (indicate_small_scale X_q q_min)))
                          (indicate_small_scale X_q q_min))
               (indicate_big_scale X_q q_max)"

definition calculate_scale_grad ::
  "real tensor \<Rightarrow> real tensor \<Rightarrow> real tensor \<Rightarrow> real tensor \<Rightarrow> real tensor \<Rightarrow> real tensor
     \<Rightarrow> int \<Rightarrow> int \<Rightarrow> real tensor" where
  "calculate_scale_grad grad_X X X_fq X_q scale zero_point q_min q_max =
     (let grad_small_scale = tmap (\<lambda>z. of_int q_min - z) zero_point;
          grad_big_scale = tmap (\<lambda>z. of_int q_max - z) zero_point;
          grad_middle_scale = tmap2 (/) (tmap2 (-) X_fq X) scale;
          grad_scale =
            tmap2 (+)
              (tmap2 (+) (tmap2 (*) (indicate_small_scale X_q q_min) grad_small_scale)
                         (tmap2 (*) (indicate_big_scale X_q q_max) grad_big_scale))
              (tmap2 (*) (indicate_middle_scale X_q q_min q_max) grad_middle_scale)
      in tmap2 (*) grad_scale grad_X)"

text \<open>The indicators of \<^verbatim>\<open>_calculate_zero_point_grad\<close>.\<close>

definition indicate_saturate_zp :: "real tensor \<Rightarrow> int \<Rightarrow> int \<Rightarrow> real tensor" where
  "indicate_saturate_zp X_q q_min q_max =
     tmap2 (+) (tmap (\<lambda>v. if v = of_int q_min then 1 else 0) X_q)
               (tmap (\<lambda>v. if v = of_int q_max then 1 else 0) X_q)"

definition indicate_unsaturate_zp :: "real tensor \<Rightarrow> int \<Rightarrow> int \<Rightarrow> real tensor" where
  "indicate_unsaturate_zp X_q q_min q_max =
     tmap2 (-) (ones (shape (indicate_saturate_zp X_q q_min q_max)))
               (indicate_saturate_zp X_q q_min q_max)"

definition calculate_zero_point_grad ::
  "real tensor \<Rightarrow> real tensor \<Rightarrow> real tensor \<Rightarrow> real tensor \<Rightarrow> real tensor \<Rightarrow> real tensor
     \<Rightarrow> int \<Rightarrow> int \<Rightarrow> real tensor" where
  "calculate_zero_point_grad grad_X X X_fq X_q scale zero_point q_min q_max =
     (let grad_saturate_zp = tmap uminus scale;
          grad_unsaturate_zp = scalar 0;
          grad_zp =
            tmap2 (+) (tmap2 (*) (indicate_saturate_zp X_q q_min q_max) grad_saturate_zp)
                      (tmap2 (*) (indicate_unsaturate_zp X_q q_min q_max) grad_unsaturate_zp)
      in tmap2 (*) grad_zp grad_X)"

section \<open>The per-tensor kernel\<close>

text \<open>
  The effective integer zero-point of both kernels:
  \<^verbatim>\<open>int((zero_point + 0.5).clamp(q_min, q_max).item())\<close>.
\<close>

definition effective_zero_point :: "real \<Rightarrow> int \<Rightarrow> int \<Rightarrow> int" where
  "effective_zero_point zero_point q_min q_max = py_int (clamp_val (zero_point + 1 / 2) q_min q_max)"

text \<open>
  Modelled from the spec: \<^verbatim>\<open>torch.fake_quantize_per_tensor_affine\<close>, the native
  primitive the forward pass delegates to, is not among the sources. The specification
  gives its contract: quantize to the integer grid by round, then clamp, and map back by
  \<open>(q - zp) * scale\<close>.
\<close>

definition fake_quantize_per_tensor_affine ::
  "real tensor \<Rightarrow> real \<Rightarrow> int \<Rightarrow> int \<Rightarrow> int \<Rightarrow> real tensor" where
  "fake_quantize_per_tensor_affine X scale zp q_min q_max =
     tmap (\<lambda>x. (clamp_val (torch_round (x / scale + of_int zp)) q_min q_max - of_int zp) * scale) X"

text \<open>
  The autograd context of one forward/backward pair: the saved tensors
  (\<^verbatim>\<open>ctx.save_for_backward\<close>) and \<^verbatim>\<open>ctx.other\<close>. The scale and the zero-point
  of the per-tensor kernel are one-element tensors; the model keeps their value.
\<close>

record ctx_per_tensor =
  saved_X :: "real tensor"
  saved_scale :: real
  saved_zero_point :: real
  other_q_min :: int
  other_q_max :: int
  other_X_fq :: "real tensor"
  other_grad_factor :: real

definition PerTensorOp_forward ::
  "real tensor \<Rightarrow> real \<Rightarrow> real \<Rightarrow> int \<Rightarrow> int \<Rightarrow> real \<Rightarrow> ctx_per_tensor \<times> real tensor" where
  "PerTensorOp_forward X scale zero_point q_min q_max grad_factor =
     (let scale_val = scale;
          zp_val = effective_zero_point zero_point q_min q_max;
          X_fq = fake_quantize_per_tensor_affine X scale_val zp_val q_min q_max
      in (\<lparr>saved_X = X, saved_scale = scale, saved_zero_point = zero_point,
           other_q_min = q_min, other_q_max = q_max, other_X_fq = X_fq,
           other_grad_factor = grad_factor\<rparr>, X_fq))"

definition PerTensorOp_backward ::
  "ctx_per_tensor \<Rightarrow> real tensor \<Rightarrow> error + (real tensor \<times> real tensor \<times> real tensor)" where
  "PerTensorOp_backward ctx grad_Y =
     (let X = saved_X ctx; scale = scalar (saved_scale ctx);
          q_min = other_q_min ctx; q_max = other_q_max ctx;
          X_fq = other_X_fq ctx; grad_factor = other_grad_factor ctx;
          zero_point = scalar (of_int (effective_zero_point (saved_zero_point ctx) q_min q_max));
          X_q = quantize X scale zero_point q_min q_max False
      in case calculate_X_grad_per_tensor grad_Y X X_q scale zero_point q_min q_max of
           Inl e \<Rightarrow> Inl e
         | Inr grad_X \<Rightarrow>
             (let X_q' = tclamp X_q q_min q_max;
                  grad_scale = unsqueeze0 (sum_all
                    (calculate_scale_grad grad_X X X_fq X_q' scale zero_point q_min q_max));
                  grad_zp = unsqueeze0 (sum_all
                    (calculate_zero_point_grad grad_X X X_fq X_q' scale zero_point q_min q_max))
              in Inr (grad_X,
                      tmap (\<lambda>v. v * grad_factor) grad_scale,
                      tmap (\<lambda>v. v * grad_factor) grad_zp)))"

section \<open>The per-channel kernel\<close>

subsection \<open>Reshaping, permuting, indexing and reducing\<close>

text \<open>
  Row-major position of a multi-index and back; \<^verbatim>\<open>Tensor.reshape\<close> keeps the row-major
  order of the elements and raises when the number of elements differs.
\<close>

fun ravel :: "nat list \<Rightarrow> nat list \<Rightarrow> nat" where
  "ravel (n # ns) (i # is) = i * prod_list ns + ravel ns is"
| "ravel _ _ = 0"

fun unravel :: "nat list \<Rightarrow> nat \<Rightarrow> nat list" where
  "unravel [] p = []"
| "unravel (n # ns) p = (p div prod_list ns) # unravel ns (p mod prod_list ns)"

definition reshape :: "'a tensor \<Rightarrow> nat list \<Rightarrow> error + 'a tensor" where
  "reshape T s =
     (if prod_list s = prod_list (shape T)
      then Inr \<lparr>shape = s, elem = \<lambda>idx. elem T (unravel (shape T) (ravel s idx))\<rparr>
      else Inl ShapeError)"

text \<open>
  \<^verbatim>\<open>axis_mask = [1] * x.ndim; axis_mask[ch_axis] = x.shape[ch_axis]\<close>; the list
  assignment raises for an axis out of range.
\<close>

definition axis_mask_of :: "nat list \<Rightarrow> nat \<Rightarrow> error + nat list" where
  "axis_mask_of s ch_axis =
     (if ch_axis < length s then Inr ((replicate (length s) 1)[ch_axis := s ! ch_axis])
      else Inl IndexError)"

text \<open>
  \<^verbatim>\<open>Y = X.permute(dims)\<close>: dimension \<open>m\<close> of \<open>Y\<close> is dimension \<open>dims[m]\<close> of \<open>X\<close>, so
  \<open>Y\<close> at \<open>j\<close> is \<open>X\<close> at the index whose component \<open>dims[m]\<close> is \<open>j[m]\<close>.
\<close>

fun index_of :: "nat list \<Rightarrow> nat \<Rightarrow> nat" where
  "index_of [] d = 0"
| "index_of (x # xs) d = (if x = d then 0 else Suc (index_of xs d))"

definition permute :: "'a tensor \<Rightarrow> nat list \<Rightarrow> 'a tensor" where
  "permute T dims =
     \<lparr>shape = map (\<lambda>d. shape T ! d) dims,
      elem = \<lambda>j. elem T (map (\<lambda>d. j ! index_of dims d) [0..<length dims])\<rparr>"

text \<open>\<^verbatim>\<open>T[i]\<close> and \<^verbatim>\<open>T[i] = V\<close> along the first dimension.\<close>

definition get_item :: "'a tensor \<Rightarrow> nat \<Rightarrow> error + 'a tensor" where
  "get_item T i =
     (case shape T of
        [] \<Rightarrow> Inl IndexError
      | n # ns \<Rightarrow> if i < n then Inr \<lparr>shape = ns, elem = \<lambda>idx. elem T (i # idx)\<rparr>
                  else Inl IndexError)"

definition set_item :: "'a tensor \<Rightarrow> nat \<Rightarrow> 'a tensor \<Rightarrow> error + 'a tensor" where
  "set_item T i V =
     (case shape T of
        [] \<Rightarrow> Inl IndexError
      | n # ns \<Rightarrow>
          if \<not> i < n then Inl IndexError
          else if \<not> broadcastable_to (shape V) ns then Inl ShapeError
          else Inr \<lparr>shape = shape T,
                    elem = \<lambda>idx. if idx \<noteq> [] \<and> hd idx = i
                                 then elem V (bidx (shape V) (tl idx)) else elem T idx\<rparr>)"

text \<open>
  Modelled from the spec: \<^verbatim>\<open>Tensor.sum(axes)\<close>, the reduction of the native tensor
  library, is not among the sources. It sums over every listed axis and keeps the others,
  which is how the specification has the gradients of scale and zero-point reduced. On an
  empty tuple of axes, about which the specification is silent, the library reduces every
  axis, as \<^verbatim>\<open>Tensor.sum()\<close> does, and returns a zero-dimensional tensor.
\<close>

definition sum_axes :: "real tensor \<Rightarrow> nat list \<Rightarrow> real tensor" where
  "sum_axes T axes =
     (if axes = [] then sum_all T
      else (let kept = filter (\<lambda>i. i \<notin> set axes) [0..<length (shape T)]
            in \<lparr>shape = map (\<lambda>i. shape T ! i) kept,
                elem = \<lambda>j. sum_list (map (elem T)
                         (filter (\<lambda>idx. map (\<lambda>i. idx ! i) kept = j) (all_indices (shape T))))\<rparr>))"

text \<open>
  The slice of a tensor along an axis at one channel index (\<^verbatim>\<open>T.select(axis, c)\<close>):
  what the specification calls a slice of \<open>X\<close> along the channel axis.
\<close>

definition select :: "'a tensor \<Rightarrow> nat \<Rightarrow> nat \<Rightarrow> 'a tensor" where
  "select T axis c =
     \<lparr>shape = take axis (shape T) @ drop (Suc axis) (shape T),
      elem = \<lambda>idx. elem T (take axis idx @ c # drop axis idx)\<rparr>"

subsection \<open>The reference helpers of the per-channel kernel\<close>

text \<open>
  \<^verbatim>\<open>_quantize_vectorized\<close>: scale and zero-point are reshaped to the axis mask and
  broadcast against \<open>x\<close>. The zero-point is an int64 tensor, promoted in the sum.
\<close>

definition quantize_vectorized ::
  "real tensor \<Rightarrow> nat \<Rightarrow> real tensor \<Rightarrow> int tensor \<Rightarrow> int \<Rightarrow> int \<Rightarrow> bool \<Rightarrow> error + real tensor" where
  "quantize_vectorized x ch_axis scale zp q_min q_max clamp =
     (case axis_mask_of (shape x) ch_axis of
        Inl e \<Rightarrow> Inl e
      | Inr axis_mask \<Rightarrow>
     (case reshape scale axis_mask of
        Inl e \<Rightarrow> Inl e
      | Inr scale_remasked \<Rightarrow>
     (case reshape zp axis_mask of
        Inl e \<Rightarrow> Inl e
      | Inr zp_remasked \<Rightarrow>
          (let xq = tmap torch_round
                      (tmap2 (+) (tmap2 (*) x (tmap (\<lambda>s. 1 / s) scale_remasked))
                                 (tmap of_int zp_remasked))
           in Inr (if clamp then tclamp xq q_min q_max else xq)))))"

text \<open>
  \<^verbatim>\<open>_permute_to_axis_zero\<close>: the axis list with \<open>0\<close> and \<open>axis\<close> exchanged, and the
  tensor permuted by it.
\<close>

definition permute_to_axis_zero :: "'a tensor \<Rightarrow> nat \<Rightarrow> error + ('a tensor \<times> nat list)" where
  "permute_to_axis_zero X axis =
     (let new_axis_list = [0..<length (shape X)]
      in if axis < length new_axis_list
         then (let new_axis_list = (new_axis_list[axis := 0])[0 := axis]
               in Inr (permute X new_axis_list, new_axis_list))
         else Inl IndexError)"

text \<open>
  The loop of \<^verbatim>\<open>_calculate_X_grad_per_channel\<close> over the channels, as a recursion
  over the list of channel indices:
  \<^verbatim>\<open>Xq[i] = torch.round(X[i] * (1.0 / scale[i]) + zero_point[i])\<close>.
\<close>

fun X_grad_loop ::
  "nat list \<Rightarrow> real tensor \<Rightarrow> real tensor \<Rightarrow> int tensor \<Rightarrow> real tensor \<Rightarrow> error + real tensor" where
  "X_grad_loop [] X scale zero_point Xq = Inr Xq"
| "X_grad_loop (i # is) X scale zero_point Xq =
     (case get_item X i of
        Inl e \<Rightarrow> Inl e
      | Inr Xi \<Rightarrow>
     (case get_item scale i of
        Inl e \<Rightarrow> Inl e
      | Inr si \<Rightarrow>
     (case get_item zero_point i of
        Inl e \<Rightarrow> Inl e
      | Inr zi \<Rightarrow>
     (case set_item Xq i
             (tmap torch_round (tmap2 (+) (tmap2 (*) Xi (tmap (\<lambda>s. 1 / s) si)) (tmap of_int zi))) of
        Inl e \<Rightarrow> Inl e
      | Inr Xq' \<Rightarrow> X_grad_loop is X scale zero_point Xq'))))"

definition calculate_X_grad_per_channel ::
  "real tensor \<Rightarrow> real tensor \<Rightarrow> real tensor \<Rightarrow> int tensor \<Rightarrow> nat \<Rightarrow> int \<Rightarrow> int
     \<Rightarrow> error + real tensor" where
  "calculate_X_grad_per_channel dY X scale zero_point axis quant_min quant_max =
     (case permute_to_axis_zero X axis of
        Inl e \<Rightarrow> Inl e
      | Inr (X', permute_axis_list) \<Rightarrow>
     (case X_grad_loop [0..<hd (shape X')] X' scale zero_point (zeros_like X') of
        Inl e \<Rightarrow> Inl e
      | Inr Xq \<Rightarrow>
          (let Xq' = permute Xq permute_axis_list;
               bmask = tmap2 (\<and>) (tmap (\<lambda>v. of_int quant_min \<le> v) Xq')
                                    (tmap (\<lambda>v. v \<le> of_int quant_max) Xq');
               res = zeros_like dY
           in masked_assign res bmask dY)))"

subsection \<open>Forward and backward\<close>

text \<open>
  The effective integer zero-points of the per-channel kernel:
  \<^verbatim>\<open>((zero_point.detach() + 0.5).clamp(q_min, q_max)).type(torch.int64)\<close>.
\<close>

definition effective_zero_point_vec :: "real tensor \<Rightarrow> int \<Rightarrow> int \<Rightarrow> int tensor" where
  "effective_zero_point_vec zero_point q_min q_max =
     tmap py_int (tmap (\<lambda>v. clamp_val v q_min q_max) (tmap (\<lambda>z. z + 1 / 2) zero_point))"

text \<open>
  Modelled from the spec: \<^verbatim>\<open>torch.fake_quantize_per_channel_affine\<close>, the native
  primitive of the per-channel forward pass, is not among the sources. The specification
  gives it the formula of the per-tensor primitive with the scale and the zero-point of an
  element taken at the element's index along the channel axis, and has a mismatch between
  the shapes of \<open>X\<close>, scale, zero-point and the channel axis fail.
\<close>

definition fake_quantize_per_channel_affine ::
  "real tensor \<Rightarrow> real tensor \<Rightarrow> int tensor \<Rightarrow> nat \<Rightarrow> int \<Rightarrow> int \<Rightarrow> error + real tensor" where
  "fake_quantize_per_channel_affine X scale zp ch_axis q_min q_max =
     (if ch_axis < length (shape X) \<and> shape scale = [shape X ! ch_axis]
         \<and> shape zp = [shape X ! ch_axis]
      then Inr \<lparr>shape = shape X,
                elem = \<lambda>idx. (clamp_val (torch_round (elem X idx / elem scale [idx ! ch_axis]
                                    + of_int (elem zp [idx ! ch_axis]))) q_min q_max
                               - of_int (elem zp [idx ! ch_axis])) * elem scale [idx ! ch_axis]\<rparr>
      else Inl ShapeError)"

record ctx_per_channel =
  pc_saved_X :: "real tensor"
  pc_saved_scale :: "real tensor"
  pc_saved_zero_point :: "real tensor"
  pc_q_min :: int
  pc_q_max :: int
  pc_X_fq :: "real tensor"
  pc_ch_axis :: nat
  pc_grad_factor :: real

definition PerChannelOp_forward ::
  "real tensor \<Rightarrow> real tensor \<Rightarrow> real tensor \<Rightarrow> nat \<Rightarrow> int \<Rightarrow> int \<Rightarrow> real
     \<Rightarrow> error + (ctx_per_channel \<times> real tensor)" where
  "PerChannelOp_forward X scale zero_point ch_axis q_min q_max grad_factor =
     (let scale_vec = scale;
          zp_vec = effective_zero_point_vec zero_point q_min q_max
      in case fake_quantize_per_channel_affine X scale_vec zp_vec ch_axis q_min q_max of
           Inl e \<Rightarrow> Inl e
         | Inr X_fq \<Rightarrow>
             Inr (\<lparr>pc_saved_X = X, pc_saved_scale = scale, pc_saved_zero_point = zero_point,
                   pc_q_min = q_min, pc_q_max = q_max, pc_X_fq = X_fq, pc_ch_axis = ch_axis,
                   pc_grad_factor = grad_factor\<rparr>, X_fq))"

text \<open>
  The backward pass. The two tensors of zeros that the source assigns to
  \<^verbatim>\<open>grad_scale\<close> and \<^verbatim>\<open>grad_zp\<close> before overwriting them are left out;
  \<^verbatim>\<open>axis_for_reduction.remove(ch_axis)\<close> raises when the axis is not an axis of
  \<^verbatim>\<open>X_fq\<close>.
\<close>

definition PerChannelOp_backward ::
  "ctx_per_channel \<Rightarrow> real tensor \<Rightarrow> error + (real tensor \<times> real tensor \<times> real tensor)" where
  "PerChannelOp_backward ctx grad_Y =
     (let X = pc_saved_X ctx; scale = pc_saved_scale ctx; zero_point = pc_saved_zero_point ctx;
          q_min = pc_q_min ctx; q_max = pc_q_max ctx; X_fq = pc_X_fq ctx;
          ch_axis = pc_ch_axis ctx; grad_factor = pc_grad_factor ctx
      in case axis_mask_of (shape X) ch_axis of
           Inl e \<Rightarrow> Inl e
         | Inr axis_mask \<Rightarrow>
       (let scale_vec = scale;
            zp_vec = effective_zero_point_vec zero_point q_min q_max
        in case calculate_X_grad_per_channel grad_Y X scale_vec zp_vec ch_axis q_min q_max of
             Inl e \<Rightarrow> Inl e
           | Inr grad_X \<Rightarrow>
         (case reshape scale_vec axis_mask of
            Inl e \<Rightarrow> Inl e
          | Inr scale_vec' \<Rightarrow>
         (case reshape zp_vec axis_mask of
            Inl e \<Rightarrow> Inl e
          | Inr zp_vec' \<Rightarrow>
         (case quantize_vectorized X ch_axis scale_vec' zp_vec' q_min q_max True of
            Inl e \<Rightarrow> Inl e
          | Inr X_q \<Rightarrow>
              if \<not> ch_axis < length (shape X_fq) then Inl KeyError
              else
                (let axis_for_reduction = filter (\<lambda>i. i \<noteq> ch_axis) [0..<length (shape X_fq)];
                     grad_scale = sum_axes
                       (calculate_scale_grad grad_X X X_fq X_q scale_vec' (tmap of_int zp_vec')
                          q_min q_max) axis_for_reduction;
                     grad_zp = sum_axes
                       (calculate_zero_point_grad grad_X X X_fq X_q scale_vec' (tmap of_int zp_vec')
                          q_min q_max) axis_for_reduction
                 in Inr (grad_X,
                         tmap (\<lambda>v. v * grad_factor) grad_scale,
                         tmap (\<lambda>v. v * grad_factor) grad_zp)))))))"

section \<open>Auxiliary facts about tensors\<close>

lemma bidx_valid: "valid_index s idx \<Longrightarrow> bidx s idx = idx"
proof -
  assume v: "valid_index s idx"
  then have len: "length idx = length s"
    by (simp add: valid_index_def list_all2_lengthD)
  have "list_all2 (\<lambda>i n. i < n) idx s \<Longrightarrow> map2 (\<lambda>n i. if n = 1 then 0 else i) s idx = idx"
    by (induction idx s rule: list_all2_induct) auto
  with v len show ?thesis
    by (simp add: bidx_def valid_index_def)
qed

lemma broadcastable_to_same [simp]: "broadcastable_to s s"
  by (simp add: broadcastable_to_def list_all2_same)

lemma bidx_Nil [simp]: "bidx [] idx = []"
  by (simp add: bidx_def)

lemma bshape_Nil_right [simp]: "bshape s [] = s"
  by (simp add: bshape_def Let_def map2_map_map zip_replicate2 map_idI) 

lemma bshape_same [simp]: "bshape s s = s"
  by (simp add: bshape_def Let_def zip_same_conv_map map_idI)

lemma set_all_indices: "set (all_indices s) = {idx. valid_index s idx}"
proof (induction s)
  case Nil
  show ?case by (auto simp: valid_index_def)
next
  case (Cons n ns)
  show ?case
  proof (rule set_eqI)
    fix idx
    show "idx \<in> set (all_indices (n # ns)) \<longleftrightarrow> idx \<in> {idx. valid_index (n # ns) idx}"
      using Cons by (cases idx) (auto simp: valid_index_def)
  qed
qed

lemma shape_tmap [simp]: "shape (tmap f T) = shape T" by (simp add: tmap_def)
lemma elem_tmap [simp]: "elem (tmap f T) idx = f (elem T idx)" by (simp add: tmap_def)
lemma shape_tmap2 [simp]: "shape (tmap2 f A B) = bshape (shape A) (shape B)" by (simp add: tmap2_def)
lemma elem_tmap2: "elem (tmap2 f A B) idx = f (elem A (bidx (shape A) idx)) (elem B (bidx (shape B) idx))" by (simp add: tmap2_def)
lemma shape_scalar [simp]: "shape (scalar v) = []" by (simp add: scalar_def)
lemma elem_scalar [simp]: "elem (scalar v) idx = v" by (simp add: scalar_def)

lemma shape_quantize_scalar [simp]:
  "shape (quantize x (scalar s) (scalar z) q_min q_max c) = shape x"
  by (simp add: quantize_def tclamp_def Let_def)

lemma elem_quantize_scalar:
  "valid_index (shape x) idx \<Longrightarrow>
   elem (quantize x (scalar s) (scalar z) q_min q_max c) idx =
     (if c then clamp_val (torch_round (elem x idx / s + z)) q_min q_max
      else torch_round (elem x idx / s + z))"
  by (simp add: quantize_def tclamp_def Let_def elem_tmap2 bidx_valid divide_inverse)


lemma calculate_X_grad_per_tensor_Inr:
  assumes "shape Xq = shape grad_Y"
  shows "\<exists>G. calculate_X_grad_per_tensor grad_Y X Xq s z q_min q_max = Inr G \<and>
             shape G = shape grad_Y \<and>
             (\<forall>idx. valid_index (shape grad_Y) idx \<longrightarrow>
                elem G idx = (if of_int q_min \<le> elem Xq idx \<and> elem Xq idx \<le> of_int q_max
                   then elem grad_Y idx else 0))"
proof -
  have take_id: "take (length (shape grad_Y)) idx = idx" if "valid_index (shape grad_Y) idx" for idx
    using that by (simp add: valid_index_def list_all2_lengthD)
  show ?thesis
    using assms
    by (simp add: calculate_X_grad_per_tensor_def masked_assign_def zeros_like_def Let_def
        elem_tmap2 bidx_valid take_id)
qed


lemma sum_list_indices_cong:
  assumes "\<And>idx. valid_index s idx \<Longrightarrow> f idx = g idx"
  shows "sum_list (map f (all_indices s)) = sum_list (map g (all_indices s))"
proof -
  have "map f (all_indices s) = map g (all_indices s)"
    by (rule map_cong) (simp_all add: set_all_indices assms)
  then show ?thesis by (rule arg_cong)
qed

lemma torch_round_of_int [simp]: "torch_round (of_int q) = of_int q"
  by (simp add: torch_round_def)

lemma X_grad_of_quantize:
  assumes "shape grad_Y = shape X"
  shows "\<exists>G. calculate_X_grad_per_tensor grad_Y X
               (quantize X (scalar sc) (scalar z) q_min q_max False) (scalar sc) (scalar z) q_min q_max = Inr G \<and>
             shape G = shape X \<and>
             (\<forall>idx. valid_index (shape X) idx \<longrightarrow>
                elem G idx = (if of_int q_min \<le> torch_round (elem X idx / sc + z) \<and>
                                 torch_round (elem X idx / sc + z) \<le> of_int q_max
                              then elem grad_Y idx else 0))"
proof -
  let ?Xq = "quantize X (scalar sc) (scalar z) q_min q_max False"
  have "shape ?Xq = shape grad_Y" using assms by simp
  from calculate_X_grad_per_tensor_Inr [OF this, of X "scalar sc" "scalar z" q_min q_max]
  show ?thesis using assms by (auto simp: elem_quantize_scalar)
qed

lemma shape_tclamp [simp]: "shape (tclamp T lo hi) = shape T" by (simp add: tclamp_def)
lemma elem_tclamp [simp]: "elem (tclamp T lo hi) idx = clamp_val (elem T idx) lo hi" by (simp add: tclamp_def)
lemma shape_sum_all [simp]: "shape (sum_all T) = []" by (simp add: sum_all_def)
lemma elem_sum_all [simp]: "elem (sum_all T) idx = sum_list (map (elem T) (all_indices (shape T)))"
  by (simp add: sum_all_def)
lemma shape_unsqueeze0 [simp]: "shape (unsqueeze0 T) = 1 # shape T" by (simp add: unsqueeze0_def)
lemma elem_unsqueeze0 [simp]: "elem (unsqueeze0 T) idx = elem T (tl idx)" by (simp add: unsqueeze0_def)

lemma effective_zero_point_nonneg_range:
  assumes "0 \<le> q_min" and "q_min \<le> q_max"
  shows "effective_zero_point zero_point q_min q_max = min (max \<lfloor>zero_point + 1 / 2\<rfloor> q_min) q_max"
proof -
  have nn: "0 \<le> clamp_val (zero_point + 1 / 2) q_min q_max"
    using assms by (simp add: clamp_val_def min_def max_def)
  have "\<lfloor>clamp_val (zero_point + 1 / 2) q_min q_max\<rfloor> = min (max \<lfloor>zero_point + 1 / 2\<rfloor> q_min) q_max"
    using assms unfolding clamp_val_def min_def max_def
    by (auto simp: floor_eq_iff le_floor_iff floor_less_iff) linarith+
  with nn show ?thesis by (simp add: effective_zero_point_def py_int_def)
qed

section \<open>Auxiliary facts about the per-channel kernel\<close>

lemma index_of_nth: "distinct xs \<Longrightarrow> m < length xs \<Longrightarrow> index_of xs (xs ! m) = m"
proof (induction xs arbitrary: m)
  case Nil
  then show ?case by simp
next
  case (Cons x xs)
  show ?case
  proof (cases m)
    case 0
    then show ?thesis by simp
  next
    case (Suc m')
    with Cons.prems have "xs ! m' \<in> set xs" by simp
    with Cons.prems have "x \<noteq> xs ! m'" by auto
    with Cons Suc show ?thesis by simp
  qed
qed

lemma swap_list_nth:
  assumes "k < n" and "m < n"
  shows "(([0..<n])[k := 0])[0 := k] ! m = (if m = 0 then k else if m = k then 0 else m)"
  using assms by (auto simp: nth_list_update)

lemma swap_list_eq_map:
  assumes "k < n"
  shows "(([0..<n])[k := 0])[0 := k] = map (\<lambda>m. if m = 0 then k else if m = k then 0 else m) [0..<n]"
  by (rule nth_equalityI) (simp_all add: swap_list_nth assms)

lemma swap_list_distinct:
  assumes "k < n"
  shows "distinct ((([0..<n])[k := 0])[0 := k])"
  unfolding swap_list_eq_map [OF assms]
  by (auto simp: distinct_map inj_on_def)

lemma swap_list_index_of:
  assumes "k < n" and "d < n"
  shows "index_of ((([0..<n])[k := 0])[0 := k]) d = (if d = 0 then k else if d = k then 0 else d)"
proof -
  let ?dims = "(([0..<n])[k := 0])[0 := k]"
  let ?m = "if d = 0 then k else if d = k then 0 else d"
  have m: "?m < n" using assms by auto
  have "?dims ! ?m = d"
    using assms m by (auto simp: swap_list_nth)
  moreover have "index_of ?dims (?dims ! ?m) = ?m"
    by (rule index_of_nth) (use m assms in \<open>simp_all add: swap_list_distinct\<close>)
  ultimately show ?thesis by simp
qed

lemma prod_list_axis_mask:
  "k < n \<Longrightarrow> prod_list ((replicate n (Suc 0))[k := C]) = C"
proof (induction n arbitrary: k)
  case 0
  then show ?case by simp
next
  case (Suc n)
  then show ?case by (cases k) simp_all
qed

lemma ravel_zeros [simp]: "ravel s (replicate n 0) = 0"
proof (induction s arbitrary: n)
  case Nil
  show ?case by simp
next
  case (Cons a s)
  then show ?case by (cases n) simp_all
qed

lemma ravel_axis_mask:
  "k < n \<Longrightarrow> ravel ((replicate n (Suc 0))[k := C]) ((replicate n 0)[k := c]) = c"
proof (induction n arbitrary: k)
  case 0
  then show ?case by simp
next
  case (Suc n)
  then show ?case by (cases k) (simp_all add: prod_list_axis_mask)
qed

lemma unravel_ones_zero: "unravel (replicate n (Suc 0)) 0 = replicate n 0"
  by (induction n) simp_all

lemma unravel_axis_mask:
  "k < n \<Longrightarrow> c < C \<Longrightarrow> unravel ((replicate n (Suc 0))[k := C]) c = (replicate n 0)[k := c]"
proof (induction n arbitrary: k)
  case 0
  then show ?case by simp
next
  case (Suc n)
  then show ?case by (cases k) (simp_all add: prod_list_axis_mask unravel_ones_zero)
qed

lemma bidx_axis_mask:
  assumes "valid_index s idx" and "k < length s"
  shows "bidx ((replicate (length s) (Suc 0))[k := s ! k]) idx = (replicate (length s) 0)[k := idx ! k]"
proof -
  have len: "length idx = length s"
    using assms(1) by (simp add: valid_index_def list_all2_lengthD)
  have lt: "idx ! i < s ! i" if "i < length s" for i
    using assms(1) that by (simp add: valid_index_def list_all2_conv_all_nth)
  show ?thesis
  proof (rule nth_equalityI)
    show "length (bidx ((replicate (length s) (Suc 0))[k := s ! k]) idx) = length ((replicate (length s) 0)[k := idx ! k])"
      by (simp add: bidx_def len)
  next
    fix i assume "i < length (bidx ((replicate (length s) (Suc 0))[k := s ! k]) idx)"
    then have i: "i < length s" by (simp add: bidx_def len)
    show "bidx ((replicate (length s) (Suc 0))[k := s ! k]) idx ! i = (replicate (length s) 0)[k := idx ! k] ! i"
      using i lt [of k] assms(2) by (auto simp: bidx_def len nth_list_update)
  qed
qed

lemma bshape_axis_mask:
  assumes "k < length s"
  shows "bshape s ((replicate (length s) (Suc 0))[k := s ! k]) = s"
  using assms by (intro nth_equalityI) (auto simp: bshape_def Let_def nth_list_update)

lemma concat_single_block:
  "c < n \<Longrightarrow> concat (map (\<lambda>i. if i = c then A else []) [0..<n]) = A"
proof (induction n)
  case 0
  then show ?case by simp
next
  case (Suc n)
  show ?case
  proof (cases "c = n")
    case True
    have "concat (map (\<lambda>i. if i = c then A else []) [0..<n]) = []"
      using True by (simp add: concat_eq_Nil_conv)
    then show ?thesis using True by simp
  next
    case False
    with Suc show ?thesis by simp
  qed
qed

lemma filter_all_indices_axis:
  "k < length s \<Longrightarrow> c < s ! k \<Longrightarrow>
   filter (\<lambda>idx. idx ! k = c) (all_indices s) =
     map (\<lambda>idx. take k idx @ c # drop k idx) (all_indices (take k s @ drop (Suc k) s))"
proof (induction k arbitrary: s)
  case 0
  then obtain n ns where s: "s = n # ns" by (cases s) auto
  have "filter (\<lambda>idx. idx ! 0 = c) (all_indices (n # ns)) =
        concat (map (\<lambda>i. if i = c then map ((#) c) (all_indices ns) else []) [0..<n])"
  proof -
    have "map ((#) i) (filter (\<lambda>_. i = c) L) = (if i = c then map ((#) c) L else [])"
      for i and L :: "nat list list"
      by simp
    then show ?thesis
      by (simp add: filter_concat filter_map o_def)
  qed
  also have "\<dots> = map ((#) c) (all_indices ns)"
    using 0 s by (simp add: concat_single_block)
  finally show ?case using s by simp
next
  case (Suc k)
  then obtain n ns where s: "s = n # ns" by (cases s) auto
  with Suc.prems have k: "k < length ns" "c < ns ! k" by simp_all
  note IH = Suc.IH [OF k]
  have "filter (\<lambda>idx. idx ! Suc k = c) (all_indices (n # ns)) =
        concat (map (\<lambda>i. map ((#) i) (filter (\<lambda>idx. idx ! k = c) (all_indices ns))) [0..<n])"
    by (simp add: filter_concat filter_map o_def)
  also have "\<dots> = map (\<lambda>idx. take (Suc k) idx @ c # drop (Suc k) idx)
                     (all_indices (n # (take k ns @ drop (Suc k) ns)))"
    by (simp add: IH map_concat o_def)
  finally show ?case using s by simp
qed

lemma filter_eq_upt: "k < n \<Longrightarrow> filter (\<lambda>i. i = k) [0..<n] = [k]"
  by (induction n) (auto simp: less_Suc_eq)

lemma kept_axes_channel:
  assumes "k < n"
  shows "filter (\<lambda>i. i \<notin> set (filter (\<lambda>i. i \<noteq> k) [0..<n])) [0..<n] = [k]"
proof -
  have "filter (\<lambda>i. i \<notin> set (filter (\<lambda>i. i \<noteq> k) [0..<n])) [0..<n] = filter (\<lambda>i. i = k) [0..<n]"
    by (rule filter_cong) auto
  then show ?thesis by (simp add: filter_eq_upt assms)
qed

lemma reduction_axes_nonempty:
  assumes "k < n" and "2 \<le> n"
  shows "filter (\<lambda>i. i \<noteq> k) [0..<n] \<noteq> []"
proof -
  have "(if k = 0 then 1 else 0) \<in> set (filter (\<lambda>i. i \<noteq> k) [0..<n])"
    using assms by auto
  then show ?thesis by (metis empty_iff empty_set)
qed

lemma reduction_axes_one_dim: "filter (\<lambda>i. i \<noteq> 0) [0..<Suc 0] = []"
  by simp

lemma sum_axes_channel:
  assumes "k < length (shape T)" and "2 \<le> length (shape T)"
  shows "shape (sum_axes T (filter (\<lambda>i. i \<noteq> k) [0..<length (shape T)])) = [shape T ! k]"
    and "c < shape T ! k \<Longrightarrow> elem (sum_axes T (filter (\<lambda>i. i \<noteq> k) [0..<length (shape T)])) [c] =
       sum_list (map (\<lambda>idx. elem T (take k idx @ c # drop k idx))
                     (all_indices (take k (shape T) @ drop (Suc k) (shape T))))"
proof -
  note ne = reduction_axes_nonempty [OF assms]
  show "shape (sum_axes T (filter (\<lambda>i. i \<noteq> k) [0..<length (shape T)])) = [shape T ! k]"
    unfolding sum_axes_def kept_axes_channel [OF assms(1)] using ne by simp
  assume c: "c < shape T ! k"
  show "elem (sum_axes T (filter (\<lambda>i. i \<noteq> k) [0..<length (shape T)])) [c] =
       sum_list (map (\<lambda>idx. elem T (take k idx @ c # drop k idx))
                     (all_indices (take k (shape T) @ drop (Suc k) (shape T))))"
    unfolding sum_axes_def kept_axes_channel [OF assms(1)]
    using ne by (simp add: filter_all_indices_axis [OF assms(1) c] o_def)
qed

lemma reshape_vec_axis_mask:
  assumes "shape T = [C]" and "k < n"
  shows "\<exists>T'. reshape T ((replicate n (Suc 0))[k := C]) = Inr T' \<and>
              shape T' = (replicate n (Suc 0))[k := C] \<and>
              (\<forall>c<C. elem T' ((replicate n 0)[k := c]) = elem T [c])"
  using assms by (simp add: reshape_def prod_list_axis_mask ravel_axis_mask)

lemma reshape_axis_mask_again:
  assumes "shape T = (replicate n (Suc 0))[k := C]" and "k < n"
  shows "\<exists>T'. reshape T ((replicate n (Suc 0))[k := C]) = Inr T' \<and>
              shape T' = (replicate n (Suc 0))[k := C] \<and>
              (\<forall>c<C. elem T' ((replicate n 0)[k := c]) = elem T ((replicate n 0)[k := c]))"
  using assms by (simp add: reshape_def ravel_axis_mask unravel_axis_mask)

lemma quantize_vectorized_Inr:
  assumes k: "k < length (shape x)"
    and S: "shape S = (replicate (length (shape x)) (Suc 0))[k := shape x ! k]"
    and Z: "shape Z = (replicate (length (shape x)) (Suc 0))[k := shape x ! k]"
  shows "\<exists>xq. quantize_vectorized x k S Z q_min q_max cl = Inr xq \<and> shape xq = shape x \<and>
     (\<forall>idx. valid_index (shape x) idx \<longrightarrow>
        elem xq idx =
          (let v = torch_round (elem x idx *
                      (1 / elem S ((replicate (length (shape x)) 0)[k := idx ! k]))
                      + of_int (elem Z ((replicate (length (shape x)) 0)[k := idx ! k])))
           in if cl then clamp_val v q_min q_max else v))"
proof -
  let ?n = "length (shape x)"
  let ?am = "(replicate ?n (Suc 0))[k := shape x ! k]"
  obtain S' where S': "reshape S ?am = Inr S'" "shape S' = ?am"
    and eS': "\<forall>c<shape x ! k. elem S' ((replicate ?n 0)[k := c]) = elem S ((replicate ?n 0)[k := c])"
    using reshape_axis_mask_again [OF S k] by blast
  obtain Z' where Z': "reshape Z ?am = Inr Z'" "shape Z' = ?am"
    and eZ': "\<forall>c<shape x ! k. elem Z' ((replicate ?n 0)[k := c]) = elem Z ((replicate ?n 0)[k := c])"
    using reshape_axis_mask_again [OF Z k] by blast
  have lt: "idx ! k < shape x ! k" if "valid_index (shape x) idx" for idx
    using that k by (simp add: valid_index_def list_all2_conv_all_nth)
  show ?thesis
    using k S' Z' eS' eZ' lt
    by (simp add: quantize_vectorized_def axis_mask_of_def Let_def elem_tmap2
        bshape_axis_mask bidx_valid bidx_axis_mask)
qed

lemma elem_calculate_scale_grad_bcast:
  assumes "shape X_q = s" "shape X_fq = s" "shape X = s" "shape grad_X = s"
    and "bshape s (shape S) = s" "bshape s (shape Z) = s" and "valid_index s idx"
  shows "shape (calculate_scale_grad grad_X X X_fq X_q S Z q_min q_max) = s"
    and "elem (calculate_scale_grad grad_X X X_fq X_q S Z q_min q_max) idx =
     ((if elem X_q idx = of_int q_min then 1 else 0) * (of_int q_min - elem Z (bidx (shape Z) idx))
      + (if elem X_q idx = of_int q_max then 1 else 0) * (of_int q_max - elem Z (bidx (shape Z) idx))
      + (1 - (if elem X_q idx = of_int q_min then 1 else 0) - (if elem X_q idx = of_int q_max then 1 else 0))
          * ((elem X_fq idx - elem X idx) / elem S (bidx (shape S) idx)))
     * elem grad_X idx"
  using assms
  by (simp_all add: calculate_scale_grad_def Let_def indicate_small_scale_def indicate_big_scale_def
      indicate_middle_scale_def ones_def elem_tmap2 bidx_valid)

lemma elem_calculate_zero_point_grad_bcast:
  assumes "shape X_q = s" "shape grad_X = s"
    and "bshape s (shape S) = s" and "valid_index s idx"
  shows "shape (calculate_zero_point_grad grad_X X X_fq X_q S Z q_min q_max) = s"
    and "elem (calculate_zero_point_grad grad_X X X_fq X_q S Z q_min q_max) idx =
     (((if elem X_q idx = of_int q_min then 1 else 0) + (if elem X_q idx = of_int q_max then 1 else 0))
         * (- elem S (bidx (shape S) idx))
      + (1 - ((if elem X_q idx = of_int q_min then 1 else 0) + (if elem X_q idx = of_int q_max then 1 else 0))) * 0)
     * elem grad_X idx"
  using assms
  by (simp_all add: calculate_zero_point_grad_def Let_def indicate_saturate_zp_def
      indicate_unsaturate_zp_def ones_def elem_tmap2 bidx_valid)

lemma valid_index_Cons:
  "valid_index (n # ns) idx \<longleftrightarrow> (\<exists>i rest. idx = i # rest \<and> i < n \<and> valid_index ns rest)"
  by (cases idx) (auto simp: valid_index_def)

lemma X_grad_loop_Inr:
  assumes "shape X' = n # ns" and "shape scale = [C]" and "shape zp = [C]"
    and "shape Xq0 = n # ns" and "\<forall>i\<in>set is. i < n \<and> i < C"
  shows "\<exists>Xq. X_grad_loop is X' scale zp Xq0 = Inr Xq \<and> shape Xq = n # ns \<and>
     (\<forall>idx. valid_index (n # ns) idx \<longrightarrow>
        elem Xq idx =
          (if hd idx \<in> set is
           then torch_round (elem X' idx * (1 / elem scale [hd idx]) + of_int (elem zp [hd idx]))
           else elem Xq0 idx))"
  using assms(4,5)
proof (induction "is" arbitrary: Xq0)
  case Nil
  then show ?case by simp
next
  case (Cons i "is")
  let ?Xi = "\<lparr>shape = ns, elem = \<lambda>idx. elem X' (i # idx)\<rparr>"
  let ?si = "\<lparr>shape = [], elem = \<lambda>idx. elem scale (i # idx)\<rparr>"
  let ?zi = "\<lparr>shape = [], elem = \<lambda>idx. elem zp (i # idx)\<rparr>"
  let ?V = "tmap torch_round (tmap2 (+) (tmap2 (*) ?Xi (tmap (\<lambda>s. 1 / s) ?si)) (tmap of_int ?zi))"
  let ?Xq1 = "\<lparr>shape = shape Xq0,
               elem = \<lambda>idx. if idx \<noteq> [] \<and> hd idx = i
                            then elem ?V (bidx (shape ?V) (tl idx)) else elem Xq0 idx\<rparr>"
  from Cons.prems have i: "i < n" "i < C" by simp_all
  have gX: "get_item X' i = Inr ?Xi" using i assms(1) by (simp add: get_item_def)
  have gs: "get_item scale i = Inr ?si" using i assms(2) by (simp add: get_item_def)
  have gz: "get_item zp i = Inr ?zi" using i assms(3) by (simp add: get_item_def)
  have sV: "shape ?V = ns" by simp
  have st: "set_item Xq0 i ?V = Inr ?Xq1"
    using i Cons.prems(1) by (simp add: set_item_def)
  have step: "X_grad_loop (i # is) X' scale zp Xq0 = X_grad_loop is X' scale zp ?Xq1"
    by (simp add: gX gs gz st del: tensor.simps)
  have "shape ?Xq1 = n # ns" using Cons.prems(1) by simp
  moreover have "\<forall>i\<in>set is. i < n \<and> i < C" using Cons.prems(2) by simp
  ultimately obtain Xq where Xq: "X_grad_loop is X' scale zp ?Xq1 = Inr Xq" "shape Xq = n # ns"
    and eXq: "\<forall>idx. valid_index (n # ns) idx \<longrightarrow>
        elem Xq idx =
          (if hd idx \<in> set is
           then torch_round (elem X' idx * (1 / elem scale [hd idx]) + of_int (elem zp [hd idx]))
           else elem ?Xq1 idx)"
    using Cons.IH [of ?Xq1] by blast
  have e1: "elem ?Xq1 idx =
      (if hd idx = i
       then torch_round (elem X' idx * (1 / elem scale [hd idx]) + of_int (elem zp [hd idx]))
       else elem Xq0 idx)" if "valid_index (n # ns) idx" for idx
  proof -
    from that obtain j rest where idx: "idx = j # rest" and rest: "valid_index ns rest"
      by (auto simp: valid_index_Cons)
    show ?thesis
      using rest by (simp add: idx elem_tmap2 bidx_valid)
  qed
  show ?case
  proof (intro exI conjI allI impI)
    show "X_grad_loop (i # is) X' scale zp Xq0 = Inr Xq"
      by (simp only: step Xq(1))
    show "shape Xq = n # ns" by (rule Xq(2))
    fix idx assume v: "valid_index (n # ns) idx"
    let ?F = "torch_round (elem X' idx * (1 / elem scale [hd idx]) + of_int (elem zp [hd idx]))"
    have "elem Xq idx = (if hd idx \<in> set is then ?F else elem ?Xq1 idx)"
      using eXq v by blast
    also have "\<dots> = (if hd idx \<in> set is then ?F else (if hd idx = i then ?F else elem Xq0 idx))"
      by (simp only: e1 [OF v])
    also have "\<dots> = (if hd idx \<in> set (i # is) then ?F else elem Xq0 idx)"
      by simp
    finally show "elem Xq idx = (if hd idx \<in> set (i # is) then ?F else elem Xq0 idx)" .
  qed
qed

lemma valid_index_nth:
  "valid_index s idx \<longleftrightarrow> length idx = length s \<and> (\<forall>i<length s. idx ! i < s ! i)"
  by (auto simp: valid_index_def list_all2_conv_all_nth)

lemma calculate_X_grad_per_channel_Inr:
  assumes k: "k < length (shape X)"
    and sc: "shape scale = [shape X ! k]" and zp: "shape zp = [shape X ! k]"
    and dY: "shape dY = shape X"
  shows "\<exists>G. calculate_X_grad_per_channel dY X scale zp k q_min q_max = Inr G \<and>
     shape G = shape X \<and>
     (\<forall>idx. valid_index (shape X) idx \<longrightarrow>
        elem G idx =
          (if of_int q_min \<le> torch_round (elem X idx * (1 / elem scale [idx ! k]) + of_int (elem zp [idx ! k])) \<and>
              torch_round (elem X idx * (1 / elem scale [idx ! k]) + of_int (elem zp [idx ! k])) \<le> of_int q_max
           then elem dY idx else 0))"
proof -
  let ?n = "length (shape X)"
  let ?dims = "(([0..<?n])[k := 0])[0 := k]"
  define sw where "sw d = (if d = 0 then k else if d = k then 0 else d)" for d
  define pi where "pi idx = map (\<lambda>d. idx ! sw d) [0..<?n]" for idx :: "nat list"
  let ?X' = "permute X ?dims"
  have n0: "0 < ?n" using k by auto
  have sw_lt: "sw d < ?n" if "d < ?n" for d using that k n0 by (auto simp: sw_def)
  have sw_sw: "sw (sw d) = d" for d by (simp add: sw_def)
  have dims_nth: "?dims ! m = sw m" if "m < ?n" for m
    using swap_list_nth [OF k that] by (simp add: sw_def)
  have dims_map: "?dims = map sw [0..<?n]"
    using swap_list_eq_map [OF k] by (simp add: sw_def)
  have perm_elem: "elem (permute T ?dims) j = elem T (pi j)" for T :: "real tensor" and j
  proof -
    have eq: "map (\<lambda>d. j ! index_of ?dims d) [0..<?n] = map (\<lambda>d. j ! sw d) [0..<?n]"
      by (rule map_cong) (simp_all add: swap_list_index_of [OF k] sw_def)
    show ?thesis by (simp add: permute_def pi_def eq)
  qed
  have perm_shape: "shape (permute T ?dims) = map (\<lambda>d. shape T ! sw d) [0..<?n]" for T :: "real tensor"
    by (simp add: permute_def dims_map o_def)
  have pi_pi: "pi (pi idx) = idx" if "length idx = ?n" for idx
    by (rule nth_equalityI) (simp_all add: pi_def that sw_lt sw_sw)
  have sX': "shape ?X' = map (\<lambda>d. shape X ! sw d) [0..<?n]" by (rule perm_shape)
  obtain ns where ns: "shape ?X' = (shape X ! k) # ns"
  proof -
    have "length (shape ?X') = ?n" by (simp add: sX')
    moreover have "shape ?X' ! 0 = shape X ! k" using n0 by (simp add: sX' sw_def)
    ultimately have "shape ?X' = (shape X ! k) # tl (shape ?X')"
      using n0 by (cases "shape ?X'") auto
    then show ?thesis by (rule that)
  qed
  have pz: "permute_to_axis_zero X k = Inr (?X', ?dims)"
    using k by (simp add: permute_to_axis_zero_def Let_def)
  have "\<forall>i\<in>set [0..<shape X ! k]. i < shape X ! k \<and> i < shape X ! k" by simp
  moreover have "shape (zeros_like ?X') = (shape X ! k) # ns" by (simp add: zeros_like_def ns)
  ultimately obtain Xq where Xq: "X_grad_loop [0..<shape X ! k] ?X' scale zp (zeros_like ?X') = Inr Xq"
    and sXq: "shape Xq = (shape X ! k) # ns"
    and eXq: "\<forall>idx. valid_index ((shape X ! k) # ns) idx \<longrightarrow>
        elem Xq idx =
          (if hd idx \<in> set [0..<shape X ! k]
           then torch_round (elem ?X' idx * (1 / elem scale [hd idx]) + of_int (elem zp [hd idx]))
           else elem (zeros_like ?X') idx)"
    using X_grad_loop_Inr [OF ns sc zp, of "zeros_like ?X'" "[0..<shape X ! k]"] by blast
  let ?Xq' = "permute Xq ?dims"
  have sXq': "shape ?Xq' = shape X"
  proof (rule nth_equalityI)
    show "length (shape ?Xq') = length (shape X)" by (simp add: perm_shape)
  next
    fix i assume "i < length (shape ?Xq')"
    then have i: "i < ?n" by (simp add: perm_shape)
    have "shape ?Xq' ! i = shape Xq ! sw i"
      using i by (simp add: perm_shape)
    also have "\<dots> = shape ?X' ! sw i"
      by (simp only: sXq ns)
    also have "\<dots> = shape X ! i"
      using i sw_lt [OF i] by (simp add: sX' sw_sw)
    finally show "shape ?Xq' ! i = shape X ! i" .
  qed
  have eXq': "elem ?Xq' idx =
      torch_round (elem X idx * (1 / elem scale [idx ! k]) + of_int (elem zp [idx ! k]))"
    if v: "valid_index (shape X) idx" for idx
  proof -
    from v have len: "length idx = ?n" and lt: "\<And>i. i < ?n \<Longrightarrow> idx ! i < shape X ! i"
      by (simp_all add: valid_index_nth)
    have vpi: "valid_index (shape ?X') (pi idx)"
      using lt sw_lt by (simp add: valid_index_nth sX' pi_def)
    have hd_pi: "hd (pi idx) = idx ! k"
      using n0 by (simp add: pi_def hd_map upt_conv_Cons sw_def)
    have "elem ?Xq' idx = elem Xq (pi idx)" by (rule perm_elem)
    also have "\<dots> = torch_round (elem ?X' (pi idx) * (1 / elem scale [idx ! k]) + of_int (elem zp [idx ! k]))"
      using eXq vpi lt [OF k] by (simp add: ns hd_pi)
    also have "elem ?X' (pi idx) = elem X idx"
      by (simp only: perm_elem pi_pi [OF len])
    finally show ?thesis .
  qed
  have take_id: "take (length (shape X)) idx = idx" if "valid_index (shape X) idx" for idx
    using that by (simp add: valid_index_nth)
  have "calculate_X_grad_per_channel dY X scale zp k q_min q_max =
      masked_assign (zeros_like dY)
        (tmap2 (\<and>) (tmap (\<lambda>v. of_int q_min \<le> v) ?Xq') (tmap (\<lambda>v. v \<le> of_int q_max) ?Xq')) dY"
    by (simp add: calculate_X_grad_per_channel_def pz ns Xq Let_def)
  then show ?thesis
    using dY by (simp add: masked_assign_def sXq' zeros_like_def Let_def elem_tmap2 bidx_valid take_id eXq')
qed

lemma valid_index_insert:
  assumes "k < length s" and "c < s ! k" and "valid_index (take k s @ drop (Suc k) s) idx"
  shows "valid_index s (take k idx @ c # drop k idx)"
    and "(take k idx @ c # drop k idx) ! k = c"
    and "length idx = length s - 1"
proof -
  from assms(3) have len: "length idx = length (take k s @ drop (Suc k) s)"
    by (simp add: valid_index_def list_all2_lengthD)
  with assms(1) show l: "length idx = length s - 1" by simp
  from l assms(1) have kl: "k \<le> length idx" by simp
  then show "(take k idx @ c # drop k idx) ! k = c"
    by (simp add: nth_append)
  have lt: "idx ! i < (take k s @ drop (Suc k) s) ! i" if "i < length s - 1" for i
    using assms(3) that l by (simp add: valid_index_def list_all2_conv_all_nth)
  show "valid_index s (take k idx @ c # drop k idx)"
    unfolding valid_index_nth
  proof (intro conjI allI impI)
    show "length (take k idx @ c # drop k idx) = length s"
      using l assms(1) by simp
  next
    fix i assume i: "i < length s"
    consider "i < k" | "i = k" | "k < i" by linarith
    then show "(take k idx @ c # drop k idx) ! i < s ! i"
    proof cases
      case 1
      with lt [of i] assms(1) kl show ?thesis by (simp add: nth_append)
    next
      case 2
      with assms(2) kl show ?thesis by (simp add: nth_append)
    next
      case 3
      then obtain j where j: "i = Suc j" "k \<le> j" by (cases i) auto
      with i have "j < length s - 1" by simp
      from lt [OF this] j assms(1) kl i show ?thesis
        by (simp add: nth_append min_def)
    qed
  qed
qed


lemma PerTensorOp_backward_sums:
  fixes X grad_Y :: "real tensor" and scale zero_point :: real and q_min q_max :: int
  defines "z \<equiv> real_of_int (effective_zero_point zero_point q_min q_max)"
  defines "xq \<equiv> \<lambda>idx. torch_round (elem X idx / scale + z)"
  defines "gx \<equiv> \<lambda>idx. if of_int q_min \<le> xq idx \<and> xq idx \<le> of_int q_max then elem grad_Y idx else 0"
  assumes gY: "shape grad_Y = shape X" and fq: "shape X_fq = shape X"
  shows "\<exists>G gS gZ.
     PerTensorOp_backward
       \<lparr>saved_X = X, saved_scale = scale, saved_zero_point = zero_point,
        other_q_min = q_min, other_q_max = q_max, other_X_fq = X_fq,
        other_grad_factor = grad_factor\<rparr> grad_Y = Inr (G, gS, gZ) \<and>
     shape G = shape X \<and> (\<forall>idx. valid_index (shape X) idx \<longrightarrow> elem G idx = gx idx) \<and>
     shape gS = [1] \<and> shape gZ = [1] \<and>
     elem gS [0] =
       (\<Sum>idx\<leftarrow>all_indices (shape X).
          ((if clamp_val (xq idx) q_min q_max = of_int q_min then 1 else 0) * (of_int q_min - z)
           + (if clamp_val (xq idx) q_min q_max = of_int q_max then 1 else 0) * (of_int q_max - z)
           + (1 - (if clamp_val (xq idx) q_min q_max = of_int q_min then 1 else 0)
                - (if clamp_val (xq idx) q_min q_max = of_int q_max then 1 else 0))
               * ((elem X_fq idx - elem X idx) / scale)) * gx idx) * grad_factor \<and>
     elem gZ [0] =
       (\<Sum>idx\<leftarrow>all_indices (shape X).
          (((if clamp_val (xq idx) q_min q_max = of_int q_min then 1 else 0)
             + (if clamp_val (xq idx) q_min q_max = of_int q_max then 1 else 0)) * (- scale)
           + (1 - ((if clamp_val (xq idx) q_min q_max = of_int q_min then 1 else 0)
                    + (if clamp_val (xq idx) q_min q_max = of_int q_max then 1 else 0))) * 0)
          * gx idx) * grad_factor"
proof -
  define Xq where "Xq = quantize X (scalar scale) (scalar z) q_min q_max False"
  obtain G where G: "calculate_X_grad_per_tensor grad_Y X Xq (scalar scale) (scalar z) q_min q_max = Inr G"
    and sG: "shape G = shape X"
    and eG: "\<forall>idx. valid_index (shape X) idx \<longrightarrow> elem G idx = gx idx"
    using X_grad_of_quantize [OF gY, of scale z q_min q_max] unfolding Xq_def gx_def xq_def by blast
  let ?Ts = "calculate_scale_grad G X X_fq (tclamp Xq q_min q_max) (scalar scale) (scalar z) q_min q_max"
  let ?Tz = "calculate_zero_point_grad G X X_fq (tclamp Xq q_min q_max) (scalar scale) (scalar z) q_min q_max"
  have sXq0: "shape Xq = shape X" by (simp add: Xq_def)
  have sXq: "shape (tclamp Xq q_min q_max) = shape X" by (simp add: sXq0)
  have eXq: "elem (tclamp Xq q_min q_max) idx = clamp_val (xq idx) q_min q_max"
    if "valid_index (shape X) idx" for idx
    using that by (simp add: Xq_def xq_def elem_quantize_scalar)
  have b: "bshape (shape X) (shape (scalar v)) = shape X" for v :: real by simp
  have sTs: "shape ?Ts = shape X"
    by (simp add: calculate_scale_grad_def Let_def indicate_small_scale_def indicate_big_scale_def
      indicate_middle_scale_def ones_def sXq0 sG fq)
  have sTz: "shape ?Tz = shape X"
    by (simp add: calculate_zero_point_grad_def Let_def indicate_saturate_zp_def
      indicate_unsaturate_zp_def ones_def sXq0 sG)
  have sumS: "sum_list (map (elem ?Ts) (all_indices (shape X))) =
       (\<Sum>idx\<leftarrow>all_indices (shape X).
          ((if clamp_val (xq idx) q_min q_max = of_int q_min then 1 else 0) * (of_int q_min - z)
           + (if clamp_val (xq idx) q_min q_max = of_int q_max then 1 else 0) * (of_int q_max - z)
           + (1 - (if clamp_val (xq idx) q_min q_max = of_int q_min then 1 else 0)
                - (if clamp_val (xq idx) q_min q_max = of_int q_max then 1 else 0))
               * ((elem X_fq idx - elem X idx) / scale)) * gx idx)"
  proof (rule sum_list_indices_cong)
    fix idx assume v: "valid_index (shape X) idx"
    show "elem ?Ts idx =
          ((if clamp_val (xq idx) q_min q_max = of_int q_min then 1 else 0) * (of_int q_min - z)
           + (if clamp_val (xq idx) q_min q_max = of_int q_max then 1 else 0) * (of_int q_max - z)
           + (1 - (if clamp_val (xq idx) q_min q_max = of_int q_min then 1 else 0)
                - (if clamp_val (xq idx) q_min q_max = of_int q_max then 1 else 0))
               * ((elem X_fq idx - elem X idx) / scale)) * gx idx"
      unfolding elem_calculate_scale_grad_bcast(2) [OF sXq fq refl sG b b v] eXq [OF v]
      using eG v by simp
  qed
  have sumZ: "sum_list (map (elem ?Tz) (all_indices (shape X))) =
       (\<Sum>idx\<leftarrow>all_indices (shape X).
          (((if clamp_val (xq idx) q_min q_max = of_int q_min then 1 else 0)
             + (if clamp_val (xq idx) q_min q_max = of_int q_max then 1 else 0)) * (- scale)
           + (1 - ((if clamp_val (xq idx) q_min q_max = of_int q_min then 1 else 0)
                    + (if clamp_val (xq idx) q_min q_max = of_int q_max then 1 else 0))) * 0)
          * gx idx)"
  proof (rule sum_list_indices_cong)
    fix idx assume v: "valid_index (shape X) idx"
    show "elem ?Tz idx =
          (((if clamp_val (xq idx) q_min q_max = of_int q_min then 1 else 0)
             + (if clamp_val (xq idx) q_min q_max = of_int q_max then 1 else 0)) * (- scale)
           + (1 - ((if clamp_val (xq idx) q_min q_max = of_int q_min then 1 else 0)
                    + (if clamp_val (xq idx) q_min q_max = of_int q_max then 1 else 0))) * 0)
          * gx idx"
      unfolding elem_calculate_zero_point_grad_bcast(2) [OF sXq sG b v] eXq [OF v]
      using eG v by simp
  qed
  have bw: "PerTensorOp_backward
       \<lparr>saved_X = X, saved_scale = scale, saved_zero_point = zero_point,
        other_q_min = q_min, other_q_max = q_max, other_X_fq = X_fq,
        other_grad_factor = grad_factor\<rparr> grad_Y =
      Inr (G, tmap (\<lambda>v. v * grad_factor) (unsqueeze0 (sum_all ?Ts)),
              tmap (\<lambda>v. v * grad_factor) (unsqueeze0 (sum_all ?Tz)))"
    using G by (simp add: PerTensorOp_backward_def Let_def Xq_def [symmetric] z_def [symmetric])
  show ?thesis
    unfolding bw
    by (intro exI conjI, rule refl, rule sG, rule eG)
       (simp_all only: shape_tmap shape_unsqueeze0 shape_sum_all
          elem_tmap elem_unsqueeze0 elem_sum_all sTs sTz sumS sumZ)
qed


lemma PerChannelOp_backward_sums:
  fixes X grad_Y scale zero_point X_fq :: "real tensor" and q_min q_max :: int and k :: nat
  defines "zv \<equiv> effective_zero_point_vec zero_point q_min q_max"
  defines "xq \<equiv> \<lambda>idx. torch_round (elem X idx * (1 / elem scale [idx ! k]) + of_int (elem zv [idx ! k]))"
  defines "gx \<equiv> \<lambda>idx. if of_int q_min \<le> xq idx \<and> xq idx \<le> of_int q_max then elem grad_Y idx else 0"
  defines "Fs \<equiv> \<lambda>idx.
          ((if clamp_val (xq idx) q_min q_max = of_int q_min then 1 else 0) * (of_int q_min - of_int (elem zv [idx ! k]))
           + (if clamp_val (xq idx) q_min q_max = of_int q_max then 1 else 0) * (of_int q_max - of_int (elem zv [idx ! k]))
           + (1 - (if clamp_val (xq idx) q_min q_max = of_int q_min then 1 else 0)
                - (if clamp_val (xq idx) q_min q_max = of_int q_max then 1 else 0))
               * ((elem X_fq idx - elem X idx) / elem scale [idx ! k])) * gx idx"
  defines "Fz \<equiv> \<lambda>idx.
          (((if clamp_val (xq idx) q_min q_max = of_int q_min then 1 else 0)
             + (if clamp_val (xq idx) q_min q_max = of_int q_max then 1 else 0)) * (- elem scale [idx ! k])
           + (1 - ((if clamp_val (xq idx) q_min q_max = of_int q_min then 1 else 0)
                    + (if clamp_val (xq idx) q_min q_max = of_int q_max then 1 else 0))) * 0)
          * gx idx"
  assumes k: "k < length (shape X)"
    and sc: "shape scale = [shape X ! k]" and zp: "shape zero_point = [shape X ! k]"
    and gY: "shape grad_Y = shape X" and fq: "shape X_fq = shape X"
  shows "\<exists>G gS gZ.
     PerChannelOp_backward
       \<lparr>pc_saved_X = X, pc_saved_scale = scale, pc_saved_zero_point = zero_point,
        pc_q_min = q_min, pc_q_max = q_max, pc_X_fq = X_fq, pc_ch_axis = k,
        pc_grad_factor = grad_factor\<rparr> grad_Y = Inr (G, gS, gZ) \<and>
     shape G = shape X \<and> (\<forall>idx. valid_index (shape X) idx \<longrightarrow> elem G idx = gx idx) \<and>
     (2 \<le> length (shape X) \<longrightarrow>
        shape gS = [shape X ! k] \<and> shape gZ = [shape X ! k] \<and>
        (\<forall>c<shape X ! k.
           elem gS [c] =
             (\<Sum>idx\<leftarrow>all_indices (take k (shape X) @ drop (Suc k) (shape X)).
                 Fs (take k idx @ c # drop k idx)) * grad_factor \<and>
           elem gZ [c] =
             (\<Sum>idx\<leftarrow>all_indices (take k (shape X) @ drop (Suc k) (shape X)).
                 Fz (take k idx @ c # drop k idx)) * grad_factor)) \<and>
     (length (shape X) = 1 \<longrightarrow>
        shape gS = [] \<and> shape gZ = [] \<and>
        elem gS [] = (\<Sum>idx\<leftarrow>all_indices (shape X). Fs idx) * grad_factor \<and>
        elem gZ [] = (\<Sum>idx\<leftarrow>all_indices (shape X). Fz idx) * grad_factor)"
proof -
  let ?n = "length (shape X)"
  let ?C = "shape X ! k"
  let ?am = "(replicate ?n (Suc 0))[k := ?C]"
  let ?ax = "filter (\<lambda>i. i \<noteq> k) [0..<?n]"
  have szv: "shape zv = [?C]" by (simp add: zv_def effective_zero_point_vec_def zp)
  have am: "axis_mask_of (shape X) k = Inr ?am" using k by (simp add: axis_mask_of_def)
  obtain G where G: "calculate_X_grad_per_channel grad_Y X scale zv k q_min q_max = Inr G"
    and sG: "shape G = shape X"
    and eG: "\<forall>idx. valid_index (shape X) idx \<longrightarrow> elem G idx = gx idx"
    using calculate_X_grad_per_channel_Inr [OF k sc szv gY, of q_min q_max]
    unfolding gx_def xq_def by blast
  obtain S1 where S1: "reshape scale ?am = Inr S1" and sS1: "shape S1 = ?am"
    and eS1: "\<forall>c<?C. elem S1 ((replicate ?n 0)[k := c]) = elem scale [c]"
    using reshape_vec_axis_mask [OF sc k] by blast
  obtain Z1 where Z1: "reshape zv ?am = Inr Z1" and sZ1: "shape Z1 = ?am"
    and eZ1: "\<forall>c<?C. elem Z1 ((replicate ?n 0)[k := c]) = elem zv [c]"
    using reshape_vec_axis_mask [OF szv k] by blast
  obtain Xq where Xq: "quantize_vectorized X k S1 Z1 q_min q_max True = Inr Xq"
    and sXq: "shape Xq = shape X"
    and eXq0: "\<forall>idx. valid_index (shape X) idx \<longrightarrow>
        elem Xq idx =
          (let v = torch_round (elem X idx * (1 / elem S1 ((replicate ?n 0)[k := idx ! k]))
                      + of_int (elem Z1 ((replicate ?n 0)[k := idx ! k])))
           in if True then clamp_val v q_min q_max else v)"
    using quantize_vectorized_Inr [OF k sS1 sZ1, of q_min q_max True] by blast
  have lt: "idx ! k < ?C" if "valid_index (shape X) idx" for idx
    using that k by (simp add: valid_index_nth)
  have eXq: "elem Xq idx = clamp_val (xq idx) q_min q_max" if v: "valid_index (shape X) idx" for idx
    using eXq0 v eS1 eZ1 lt [OF v] by (simp add: xq_def)
  let ?Z = "tmap real_of_int Z1"
  let ?Ts = "calculate_scale_grad G X X_fq Xq S1 ?Z q_min q_max"
  let ?Tz = "calculate_zero_point_grad G X X_fq Xq S1 ?Z q_min q_max"
  have bS: "bshape (shape X) (shape S1) = shape X" by (simp add: sS1 bshape_axis_mask [OF k])
  have bZ: "bshape (shape X) (shape ?Z) = shape X" by (simp add: sZ1 bshape_axis_mask [OF k])
  have iS: "elem S1 (bidx (shape S1) idx) = elem scale [idx ! k]" if v: "valid_index (shape X) idx" for idx
    using eS1 lt [OF v] by (simp add: sS1 bidx_axis_mask [OF v k])
  have iZ: "elem ?Z (bidx (shape ?Z) idx) = of_int (elem zv [idx ! k])" if v: "valid_index (shape X) idx" for idx
    using eZ1 lt [OF v] by (simp add: sZ1 bidx_axis_mask [OF v k])
  have sTs: "shape ?Ts = shape X" and sTz: "shape ?Tz = shape X"
    using bS bZ
    by (simp_all add: calculate_scale_grad_def calculate_zero_point_grad_def Let_def
        indicate_small_scale_def indicate_big_scale_def indicate_middle_scale_def
        indicate_saturate_zp_def indicate_unsaturate_zp_def ones_def sXq sG fq)
  have eTs: "elem ?Ts idx = Fs idx" if v: "valid_index (shape X) idx" for idx
    unfolding elem_calculate_scale_grad_bcast(2) [OF sXq fq refl sG bS bZ v] eXq [OF v] iS [OF v] iZ [OF v]
    using eG v by (simp add: Fs_def)
  have eTz: "elem ?Tz idx = Fz idx" if v: "valid_index (shape X) idx" for idx
    unfolding elem_calculate_zero_point_grad_bcast(2) [OF sXq sG bS v] eXq [OF v] iS [OF v]
    using eG v by (simp add: Fz_def)
  have bw: "PerChannelOp_backward
       \<lparr>pc_saved_X = X, pc_saved_scale = scale, pc_saved_zero_point = zero_point,
        pc_q_min = q_min, pc_q_max = q_max, pc_X_fq = X_fq, pc_ch_axis = k,
        pc_grad_factor = grad_factor\<rparr> grad_Y =
      Inr (G, tmap (\<lambda>v. v * grad_factor) (sum_axes ?Ts ?ax),
              tmap (\<lambda>v. v * grad_factor) (sum_axes ?Tz ?ax))"
    using k by (simp add: PerChannelOp_backward_def Let_def zv_def [symmetric] am G S1 Z1 Xq fq)
  let ?gS = "tmap (\<lambda>v. v * grad_factor) (sum_axes ?Ts ?ax)"
  let ?gZ = "tmap (\<lambda>v. v * grad_factor) (sum_axes ?Tz ?ax)"
  have multi: "shape ?gS = [?C] \<and> shape ?gZ = [?C] \<and>
        (\<forall>c<?C.
           elem ?gS [c] =
             (\<Sum>idx\<leftarrow>all_indices (take k (shape X) @ drop (Suc k) (shape X)).
                 Fs (take k idx @ c # drop k idx)) * grad_factor \<and>
           elem ?gZ [c] =
             (\<Sum>idx\<leftarrow>all_indices (take k (shape X) @ drop (Suc k) (shape X)).
                 Fz (take k idx @ c # drop k idx)) * grad_factor)" if n2: "2 \<le> ?n"
  proof -
    have kS: "k < length (shape ?Ts)" and kZ: "k < length (shape ?Tz)"
      using k by (simp_all only: sTs sTz)
    have nS: "2 \<le> length (shape ?Ts)" and nZ: "2 \<le> length (shape ?Tz)"
      using n2 by (simp_all only: sTs sTz)
    have shS: "shape (sum_axes ?Ts ?ax) = [?C]"
      using sum_axes_channel(1) [OF kS nS] by (simp only: sTs)
    have shZ: "shape (sum_axes ?Tz ?ax) = [?C]"
      using sum_axes_channel(1) [OF kZ nZ] by (simp only: sTz)
    have sums: "elem (sum_axes ?Ts ?ax) [c] =
            (\<Sum>idx\<leftarrow>all_indices (take k (shape X) @ drop (Suc k) (shape X)).
                Fs (take k idx @ c # drop k idx))"
         "elem (sum_axes ?Tz ?ax) [c] =
            (\<Sum>idx\<leftarrow>all_indices (take k (shape X) @ drop (Suc k) (shape X)).
                Fz (take k idx @ c # drop k idx))" if c: "c < ?C" for c
    proof -
      have cS: "c < shape ?Ts ! k" and cZ: "c < shape ?Tz ! k" using c by (simp_all only: sTs sTz)
      have "elem (sum_axes ?Ts ?ax) [c] =
          sum_list (map (\<lambda>idx. elem ?Ts (take k idx @ c # drop k idx))
                       (all_indices (take k (shape X) @ drop (Suc k) (shape X))))"
        using sum_axes_channel(2) [OF kS nS cS] by (simp only: sTs)
      also have "\<dots> = (\<Sum>idx\<leftarrow>all_indices (take k (shape X) @ drop (Suc k) (shape X)).
                Fs (take k idx @ c # drop k idx))"
        by (rule sum_list_indices_cong) (rule eTs, rule valid_index_insert(1) [OF k c])
      finally show "elem (sum_axes ?Ts ?ax) [c] =
            (\<Sum>idx\<leftarrow>all_indices (take k (shape X) @ drop (Suc k) (shape X)).
                Fs (take k idx @ c # drop k idx))" .
      have "elem (sum_axes ?Tz ?ax) [c] =
          sum_list (map (\<lambda>idx. elem ?Tz (take k idx @ c # drop k idx))
                       (all_indices (take k (shape X) @ drop (Suc k) (shape X))))"
        using sum_axes_channel(2) [OF kZ nZ cZ] by (simp only: sTz)
      also have "\<dots> = (\<Sum>idx\<leftarrow>all_indices (take k (shape X) @ drop (Suc k) (shape X)).
                Fz (take k idx @ c # drop k idx))"
        by (rule sum_list_indices_cong) (rule eTz, rule valid_index_insert(1) [OF k c])
      finally show "elem (sum_axes ?Tz ?ax) [c] =
            (\<Sum>idx\<leftarrow>all_indices (take k (shape X) @ drop (Suc k) (shape X)).
                Fz (take k idx @ c # drop k idx))" .
    qed
    show ?thesis
      by (intro allI impI conjI) (simp_all only: shape_tmap elem_tmap shS shZ sums)
  qed
  have one: "shape ?gS = [] \<and> shape ?gZ = [] \<and>
        elem ?gS [] = (\<Sum>idx\<leftarrow>all_indices (shape X). Fs idx) * grad_factor \<and>
        elem ?gZ [] = (\<Sum>idx\<leftarrow>all_indices (shape X). Fz idx) * grad_factor" if n1: "?n = 1"
  proof -
    have k0: "k = 0" using k n1 by simp
    have ax: "?ax = []" by (simp add: n1 k0)
    have rS: "sum_axes ?Ts ?ax = sum_all ?Ts" and rZ: "sum_axes ?Tz ?ax = sum_all ?Tz"
      unfolding ax by (simp_all add: sum_axes_def)
    have sS: "sum_list (map (elem ?Ts) (all_indices (shape X))) = (\<Sum>idx\<leftarrow>all_indices (shape X). Fs idx)"
      by (rule sum_list_indices_cong) (rule eTs)
    have sZ: "sum_list (map (elem ?Tz) (all_indices (shape X))) = (\<Sum>idx\<leftarrow>all_indices (shape X). Fz idx)"
      by (rule sum_list_indices_cong) (rule eTz)
    show ?thesis
      by (intro conjI)
         (simp_all only: rS rZ shape_tmap elem_tmap shape_sum_all elem_sum_all sTs sTz sS sZ)
  qed
  show ?thesis
    apply (rule exI [of _ G])
    apply (rule exI [of _ ?gS])
    apply (rule exI [of _ ?gZ])
    apply (intro conjI)
        apply (rule bw)
       apply (rule sG)
      apply (rule eG)
     apply (rule impI, erule multi)
    apply (rule impI, erule one)
    done
qed

lemma PerChannelOp_backward_one_dim:
  fixes X grad_Y scale zero_point X_fq :: "real tensor" and q_min q_max :: int and k :: nat
  defines "zv \<equiv> effective_zero_point_vec zero_point q_min q_max"
  defines "xq \<equiv> \<lambda>idx. torch_round (elem X idx * (1 / elem scale [idx ! k]) + of_int (elem zv [idx ! k]))"
  defines "gx \<equiv> \<lambda>idx. if of_int q_min \<le> xq idx \<and> xq idx \<le> of_int q_max then elem grad_Y idx else 0"
  defines "Fs \<equiv> \<lambda>idx.
          ((if clamp_val (xq idx) q_min q_max = of_int q_min then 1 else 0) * (of_int q_min - of_int (elem zv [idx ! k]))
           + (if clamp_val (xq idx) q_min q_max = of_int q_max then 1 else 0) * (of_int q_max - of_int (elem zv [idx ! k]))
           + (1 - (if clamp_val (xq idx) q_min q_max = of_int q_min then 1 else 0)
                - (if clamp_val (xq idx) q_min q_max = of_int q_max then 1 else 0))
               * ((elem X_fq idx - elem X idx) / elem scale [idx ! k])) * gx idx"
  defines "Fz \<equiv> \<lambda>idx.
          (((if clamp_val (xq idx) q_min q_max = of_int q_min then 1 else 0)
             + (if clamp_val (xq idx) q_min q_max = of_int q_max then 1 else 0)) * (- elem scale [idx ! k])
           + (1 - ((if clamp_val (xq idx) q_min q_max = of_int q_min then 1 else 0)
                    + (if clamp_val (xq idx) q_min q_max = of_int q_max then 1 else 0))) * 0)
          * gx idx"
  assumes k: "k < length (shape X)"
    and sc: "shape scale = [shape X ! k]" and zp: "shape zero_point = [shape X ! k]"
    and gY: "shape grad_Y = shape X" and fq: "shape X_fq = shape X"
    and n1: "length (shape X) = 1"
  shows "\<exists>G gS gZ.
     PerChannelOp_backward
       \<lparr>pc_saved_X = X, pc_saved_scale = scale, pc_saved_zero_point = zero_point,
        pc_q_min = q_min, pc_q_max = q_max, pc_X_fq = X_fq, pc_ch_axis = k,
        pc_grad_factor = grad_factor\<rparr> grad_Y = Inr (G, gS, gZ) \<and>
     shape gS = [] \<and> shape gZ = [] \<and>
     elem gS [] = (\<Sum>idx\<leftarrow>all_indices (shape X). Fs idx) * grad_factor \<and>
     elem gZ [] = (\<Sum>idx\<leftarrow>all_indices (shape X). Fz idx) * grad_factor"
  using PerChannelOp_backward_sums [OF k sc zp gY fq, of q_min q_max grad_factor] n1
  unfolding zv_def xq_def gx_def Fs_def Fz_def by blast

lemma shape_select [simp]: "shape (select T k c) = take k (shape T) @ drop (Suc k) (shape T)"
  by (simp add: select_def)

lemma elem_select [simp]: "elem (select T k c) idx = elem T (take k idx @ c # drop k idx)"
  by (simp add: select_def)

section \<open>The per-tensor kernel: forward pass\<close>

text \<open>
  Claim C1. For a positive scale and \<open>q_min < q_max\<close> the effective zero-point lies in
  \<open>[q_min, q_max]\<close> and the per-tensor forward output is, at every element,
  \<open>(clamp(round(X / scale + zp), q_min, q_max) - zp) * scale\<close> with \<open>zp\<close> the effective
  integer zero-point; for \<open>X = [0.0, 0.4, 0.6, 1.0]\<close>, scale \<open>0.5\<close>, zero-point \<open>0\<close>
  and the range \<open>[0, 3]\<close> the output is \<open>[0.0, 0.5, 0.5, 1.0]\<close>.
\<close>

theorem forward_formula:
  "(0 < scale \<longrightarrow> q_min < q_max \<longrightarrow>
      q_min \<le> effective_zero_point zero_point q_min q_max \<and>
      effective_zero_point zero_point q_min q_max \<le> q_max \<and>
      shape (snd (PerTensorOp_forward X scale zero_point q_min q_max grad_factor)) = shape X \<and>
      elem (snd (PerTensorOp_forward X scale zero_point q_min q_max grad_factor)) idx =
        (let zp = of_int (effective_zero_point zero_point q_min q_max)
         in (clamp_val (torch_round (elem X idx / scale + zp)) q_min q_max - zp) * scale)) \<and>
   to_list (snd (PerTensorOp_forward (of_list [0, 2/5, 3/5, 1]) (1/2) 0 0 3 g)) = [0, 1/2, 1/2, 1]"
proof -
  have r: "q_min \<le> effective_zero_point zero_point q_min q_max \<and>
      effective_zero_point zero_point q_min q_max \<le> q_max" if "q_min < q_max"
    using that unfolding effective_zero_point_def py_int_def clamp_val_def
    by (auto simp: le_floor_iff floor_le_iff min_def max_def) linarith+
  have c: "to_list (snd (PerTensorOp_forward (of_list [0, 2/5, 3/5, 1]) (1/2) 0 0 3 g)) = [0, 1/2, 1/2, 1]"
    by (simp add: to_list_def PerTensorOp_forward_def fake_quantize_per_tensor_affine_def
        of_list_def effective_zero_point_def py_int_def clamp_val_def torch_round_def Let_def
        eval_nat_numeral)
  show ?thesis
    using r c by (simp add: PerTensorOp_forward_def fake_quantize_per_tensor_affine_def Let_def)
qed

theorem forward_formula_witness:
  "(0::real) < 1/2 \<and> (0::int) < 3 \<and>
   elem (snd (PerTensorOp_forward (of_list [0, 2/5, 3/5, 1]) (1/2) (3/5) 0 3 1)) [3] = 1"
  using forward_formula [of "1/2" 0 3 "3/5" "of_list [0, 2/5, 3/5, 1]" 1 "[3]" 1]
  by (simp add: of_list_def effective_zero_point_def py_int_def clamp_val_def torch_round_def Let_def)

text \<open>
  Claim C2. The claim reads the effective zero-point as the zero-point rounded to the
  nearest integer and then clamped. Both kernels add one half, clamp and truncate towards
  zero, which rounds a negative value the wrong way: for the zero-point \<open>-0.7\<close> on the
  signed range \<open>[-128, 127]\<close> they yield \<open>0\<close>, while the nearest integer is \<open>-1\<close>.
  (On a range with \<open>q_min \<ge> 0\<close> the result is \<open>floor(zero_point + 0.5)\<close> clamped,
  see \<open>effective_zero_point_nonneg_range\<close>.)
\<close>

theorem zero_point_truncates_negative:
  "effective_zero_point (- 7/10) (- 128) 127 = 0 \<and>
   elem (effective_zero_point_vec (of_list [- 7/10]) (- 128) 127) [0] = 0 \<and>
   clamp_val (torch_round (- 7/10)) (- 128) 127 = - 1"
  by (simp add: effective_zero_point_def effective_zero_point_vec_def of_list_def
      py_int_def clamp_val_def torch_round_def)

section \<open>The per-tensor kernel: backward pass\<close>

text \<open>
  Claim C3. For a nonzero scale, a cached \<open>X_fq\<close> and a \<open>grad_Y\<close> of the shape of
  \<open>X\<close>, the backward pass succeeds, and
  \<open>dX\<close> is \<open>dY\<close> at every element whose unclamped code
  \<open>Xq = round(X / scale + zp)\<close> satisfies \<open>q_min \<le> Xq \<le> q_max\<close> and zero at every
  other element; the gradient factor does not enter \<open>dX\<close>.
\<close>

theorem dX_passthrough:
  assumes "shape grad_Y = shape X" and "valid_index (shape X) idx" and "shape X_fq = shape X"
    and "scale \<noteq> 0"
  shows "\<exists>grad_X grad_scale grad_zp.
     PerTensorOp_backward
       \<lparr>saved_X = X, saved_scale = scale, saved_zero_point = zero_point,
        other_q_min = q_min, other_q_max = q_max, other_X_fq = X_fq,
        other_grad_factor = grad_factor\<rparr> grad_Y = Inr (grad_X, grad_scale, grad_zp) \<and>
     shape grad_X = shape X \<and>
     elem grad_X idx =
       (let zp = of_int (effective_zero_point zero_point q_min q_max);
            Xq = torch_round (elem X idx / scale + zp)
        in if of_int q_min \<le> Xq \<and> Xq \<le> of_int q_max then elem grad_Y idx else 0)"
proof -
  obtain G where G: "calculate_X_grad_per_tensor grad_Y X
       (quantize X (scalar scale) (scalar (of_int (effective_zero_point zero_point q_min q_max))) q_min q_max False)
       (scalar scale) (scalar (of_int (effective_zero_point zero_point q_min q_max))) q_min q_max = Inr G"
    and sG: "shape G = shape X"
    and eG: "\<forall>idx. valid_index (shape X) idx \<longrightarrow>
                elem G idx = (if of_int q_min \<le> torch_round (elem X idx / scale + of_int (effective_zero_point zero_point q_min q_max)) \<and>
                                 torch_round (elem X idx / scale + of_int (effective_zero_point zero_point q_min q_max)) \<le> of_int q_max
                              then elem grad_Y idx else 0)"
    using X_grad_of_quantize [OF assms(1)] by blast
  show ?thesis
    using G sG eG assms(2) by (simp add: PerTensorOp_backward_def Let_def)
qed

theorem dX_passthrough_witness:
  "shape (of_list [1, 1, 1, 1::real]) = shape (of_list [0, 2/5, 3/5, 1::real]) \<and>
   valid_index (shape (of_list [0, 2/5, 3/5, 1::real])) [3] \<and>
   shape (of_list [0, 1/2, 1/2, 1/2::real]) = shape (of_list [0, 2/5, 3/5, 1::real]) \<and>
   (1/2::real) \<noteq> 0 \<and>
   (\<exists>grad_X grad_scale grad_zp.
      PerTensorOp_backward
       \<lparr>saved_X = of_list [0, 2/5, 3/5, 1], saved_scale = 1/2, saved_zero_point = 0,
        other_q_min = 0, other_q_max = 1, other_X_fq = of_list [0, 1/2, 1/2, 1/2],
        other_grad_factor = 1\<rparr> (of_list [1, 1, 1, 1]) = Inr (grad_X, grad_scale, grad_zp) \<and>
      shape grad_X = [4] \<and> elem grad_X [3] = 0)"
  using dX_passthrough [of "of_list [1, 1, 1, 1]" "of_list [0, 2/5, 3/5, 1]" "[3]"
      "of_list [0, 1/2, 1/2, 1/2]" "1/2" 0 0 1 1]
  by (simp add: of_list_def valid_index_def effective_zero_point_def py_int_def clamp_val_def
      torch_round_def Let_def eval_nat_numeral)

text \<open>
  Claim C4, as stated, fails: an element whose code equals \<open>q_min\<close> without being
  clamped still passes its gradient. For \<open>X = [0.0]\<close>, scale \<open>0.5\<close>, zero-point
  \<open>0\<close> and the range \<open>[0, 3]\<close> the clamped code is \<open>0 = q_min\<close> and \<open>dX\<close> is
  \<open>dY = 1\<close>, not zero.
\<close>

theorem dX_nonzero_at_boundary_code:
  "elem (quantize (of_list [0]) (scalar (1/2)) (scalar (of_int (effective_zero_point 0 0 3))) 0 3 True) [0]
     = of_int 0 \<and>
   \<not> isl (PerTensorOp_backward
       \<lparr>saved_X = of_list [0], saved_scale = 1/2, saved_zero_point = 0,
        other_q_min = 0, other_q_max = 3, other_X_fq = of_list [0],
        other_grad_factor = 1\<rparr> (of_list [1])) \<and>
   elem (fst (projr (PerTensorOp_backward
       \<lparr>saved_X = of_list [0], saved_scale = 1/2, saved_zero_point = 0,
        other_q_min = 0, other_q_max = 3, other_X_fq = of_list [0],
        other_grad_factor = 1\<rparr> (of_list [1])))) [0] = 1"
proof -
  have ez: "effective_zero_point 0 0 3 = 0"
    by (simp add: effective_zero_point_def py_int_def clamp_val_def)
  have v: "valid_index (shape (of_list [0::real])) [0]"
    by (simp add: of_list_def valid_index_def)
  have code: "elem (quantize (of_list [0]) (scalar (1/2)) (scalar (of_int (effective_zero_point 0 0 3))) 0 3 True) [0]
     = of_int 0"
    using v by (simp add: elem_quantize_scalar ez of_list_def clamp_val_def torch_round_def)
  obtain G where G: "calculate_X_grad_per_tensor (of_list [1]) (of_list [0])
       (quantize (of_list [0]) (scalar (1/2)) (scalar 0) 0 3 False) (scalar (1/2)) (scalar 0) 0 3 = Inr G"
    and eG: "\<forall>idx. valid_index (shape (of_list [0::real])) idx \<longrightarrow>
                elem G idx = (if of_int 0 \<le> torch_round (elem (of_list [0]) idx / (1/2) + 0) \<and>
                                 torch_round (elem (of_list [0]) idx / (1/2) + 0) \<le> of_int 3
                              then elem (of_list [1]) idx else 0)"
    using X_grad_of_quantize [of "of_list [1]" "of_list [0]" "1/2" 0 0 3]
    by (auto simp: of_list_def)
  have g0: "elem G [0] = 1"
    using eG v by (simp add: of_list_def torch_round_def)
  show ?thesis
    using code g0 by (simp add: PerTensorOp_backward_def Let_def G ez)
qed

text \<open>
  Claim C4, amended. For \<open>q_min \<le> q_max\<close> (and a nonzero scale, a cached \<open>X_fq\<close> and
  a \<open>grad_Y\<close> of the shape of \<open>X\<close>), \<open>dX\<close> is exactly zero at every element
  whose code is changed by clamping (the unclamped code lies strictly outside
  \<open>[q_min, q_max]\<close>) and equals the corresponding element of \<open>dY\<close> at every other
  element, also where the code equals \<open>q_min\<close> or \<open>q_max\<close>.
\<close>

theorem dX_zero_where_clamping_acts:
  assumes "shape grad_Y = shape X" and "valid_index (shape X) idx" and "q_min \<le> q_max"
    and "shape X_fq = shape X" and "scale \<noteq> 0"
  shows "\<exists>grad_X grad_scale grad_zp.
     PerTensorOp_backward
       \<lparr>saved_X = X, saved_scale = scale, saved_zero_point = zero_point,
        other_q_min = q_min, other_q_max = q_max, other_X_fq = X_fq,
        other_grad_factor = grad_factor\<rparr> grad_Y = Inr (grad_X, grad_scale, grad_zp) \<and>
     elem grad_X idx =
       (let zp = of_int (effective_zero_point zero_point q_min q_max);
            Xq = torch_round (elem X idx / scale + zp)
        in if clamp_val Xq q_min q_max \<noteq> Xq then 0 else elem grad_Y idx)"
proof -
  obtain G where G: "calculate_X_grad_per_tensor grad_Y X
       (quantize X (scalar scale) (scalar (of_int (effective_zero_point zero_point q_min q_max))) q_min q_max False)
       (scalar scale) (scalar (of_int (effective_zero_point zero_point q_min q_max))) q_min q_max = Inr G"
    and eG: "\<forall>idx. valid_index (shape X) idx \<longrightarrow>
                elem G idx = (if of_int q_min \<le> torch_round (elem X idx / scale + of_int (effective_zero_point zero_point q_min q_max)) \<and>
                                 torch_round (elem X idx / scale + of_int (effective_zero_point zero_point q_min q_max)) \<le> of_int q_max
                              then elem grad_Y idx else 0)"
    using X_grad_of_quantize [OF assms(1)] by blast
  have cl: "clamp_val v q_min q_max \<noteq> v \<longleftrightarrow> \<not> (of_int q_min \<le> v \<and> v \<le> of_int q_max)" for v
    using assms(3) by (auto simp: clamp_val_def min_def max_def)
  show ?thesis
    using G eG assms(2) by (simp add: PerTensorOp_backward_def Let_def cl)
qed

theorem dX_zero_where_clamping_acts_witness:
  "shape (of_list [1, 1, 1, 1::real]) = shape (of_list [0, 2/5, 3/5, 1::real]) \<and>
   valid_index (shape (of_list [0, 2/5, 3/5, 1::real])) [1] \<and> (0::int) \<le> 1 \<and>
   shape (of_list [0, 1/2, 1/2, 1/2::real]) = shape (of_list [0, 2/5, 3/5, 1::real]) \<and>
   (1/2::real) \<noteq> 0 \<and>
   (\<exists>grad_X grad_scale grad_zp.
      PerTensorOp_backward
       \<lparr>saved_X = of_list [0, 2/5, 3/5, 1], saved_scale = 1/2, saved_zero_point = 0,
        other_q_min = 0, other_q_max = 1, other_X_fq = of_list [0, 1/2, 1/2, 1/2],
        other_grad_factor = 1\<rparr> (of_list [1, 1, 1, 1]) = Inr (grad_X, grad_scale, grad_zp) \<and>
      elem grad_X [1] = 1)"
  using dX_zero_where_clamping_acts [of "of_list [1, 1, 1, 1]" "of_list [0, 2/5, 3/5, 1]" "[1]"
      0 1 "of_list [0, 1/2, 1/2, 1/2]" "1/2" 0 1]
  by (simp add: of_list_def valid_index_def effective_zero_point_def py_int_def clamp_val_def
      torch_round_def Let_def eval_nat_numeral)

text \<open>
  Claim C5. With \<open>q_min < q_max\<close> (and a nonzero scale, a cached \<open>X_fq\<close> and a
  \<open>grad_Y\<close> of the shape of \<open>X\<close>), the backward pass returns, \<open>dX\<close> is \<open>dY\<close> masked
  by \<open>q_min \<le> Xq \<le> q_max\<close> on the unclamped code, and \<open>dScale\<close> is a one-element tensor
  holding the gradient factor times the sum over all elements of the local contribution
  times that \<open>dX\<close>; the local contribution is \<open>q_min - zp\<close> where the clamped code equals
  \<open>q_min\<close>, \<open>q_max - zp\<close> where it equals \<open>q_max\<close>, and \<open>(Xfq - X) / scale\<close> at the
  elements strictly inside. The boundary is detected by equality on the clamped code.
\<close>

theorem dScale_formula:
  assumes "shape grad_Y = shape X" and "shape X_fq = shape X" and "q_min < q_max"
    and "scale \<noteq> 0"
  shows "\<exists>grad_X grad_scale grad_zp.
     PerTensorOp_backward
       \<lparr>saved_X = X, saved_scale = scale, saved_zero_point = zero_point,
        other_q_min = q_min, other_q_max = q_max, other_X_fq = X_fq,
        other_grad_factor = grad_factor\<rparr> grad_Y = Inr (grad_X, grad_scale, grad_zp) \<and>
     (\<forall>idx. valid_index (shape X) idx \<longrightarrow>
        elem grad_X idx =
          (let zp = of_int (effective_zero_point zero_point q_min q_max);
               Xq = torch_round (elem X idx / scale + zp)
           in if of_int q_min \<le> Xq \<and> Xq \<le> of_int q_max then elem grad_Y idx else 0)) \<and>
     shape grad_scale = [1] \<and>
     elem grad_scale [0] = grad_factor *
       (\<Sum>idx\<leftarrow>all_indices (shape X).
          (let zp = of_int (effective_zero_point zero_point q_min q_max);
               Xq = torch_round (elem X idx / scale + zp);
               Xc = clamp_val Xq q_min q_max;
               dX = (if of_int q_min \<le> Xq \<and> Xq \<le> of_int q_max then elem grad_Y idx else 0)
           in (if Xc = of_int q_min then of_int q_min - zp
               else if Xc = of_int q_max then of_int q_max - zp
               else (elem X_fq idx - elem X idx) / scale) * dX))"
proof -
  define z :: real where "z = real_of_int (effective_zero_point zero_point q_min q_max)"
  let ?xq = "\<lambda>idx. torch_round (elem X idx / scale + z)"
  let ?gx = "\<lambda>idx. if of_int q_min \<le> ?xq idx \<and> ?xq idx \<le> of_int q_max then elem grad_Y idx else 0"
  let ?raw = "\<lambda>idx.
          ((if clamp_val (?xq idx) q_min q_max = of_int q_min then 1 else 0) * (of_int q_min - z)
           + (if clamp_val (?xq idx) q_min q_max = of_int q_max then 1 else 0) * (of_int q_max - z)
           + (1 - (if clamp_val (?xq idx) q_min q_max = of_int q_min then 1 else 0)
                - (if clamp_val (?xq idx) q_min q_max = of_int q_max then 1 else 0))
               * ((elem X_fq idx - elem X idx) / scale)) * ?gx idx"
  let ?pw = "\<lambda>idx.
          (if clamp_val (?xq idx) q_min q_max = of_int q_min then of_int q_min - z
           else if clamp_val (?xq idx) q_min q_max = of_int q_max then of_int q_max - z
           else (elem X_fq idx - elem X idx) / scale) * ?gx idx"
  obtain G gS gZ where
    bw: "PerTensorOp_backward
       \<lparr>saved_X = X, saved_scale = scale, saved_zero_point = zero_point,
        other_q_min = q_min, other_q_max = q_max, other_X_fq = X_fq,
        other_grad_factor = grad_factor\<rparr> grad_Y = Inr (G, gS, gZ)"
    and eG: "\<forall>idx. valid_index (shape X) idx \<longrightarrow> elem G idx = ?gx idx"
    and shS: "shape gS = [1]"
    and sumS: "elem gS [0] = (\<Sum>idx\<leftarrow>all_indices (shape X). ?raw idx) * grad_factor"
    using PerTensorOp_backward_sums [OF assms(1,2), of scale zero_point q_min q_max grad_factor]
    unfolding z_def by blast
  have ne: "real_of_int q_min \<noteq> real_of_int q_max" using assms(3) by simp
  have "?raw idx = ?pw idx" for idx
    using ne by simp
  then have "(\<Sum>idx\<leftarrow>all_indices (shape X). ?raw idx) = (\<Sum>idx\<leftarrow>all_indices (shape X). ?pw idx)"
    by presburger
  with sumS have sumS': "elem gS [0] = grad_factor * (\<Sum>idx\<leftarrow>all_indices (shape X). ?pw idx)"
    by (simp only: mult.commute)
  show ?thesis
    apply (unfold Let_def z_def [symmetric])
    apply (rule exI [of _ G])
    apply (rule exI [of _ gS])
    apply (rule exI [of _ gZ])
    apply (intro conjI)
       apply (rule bw)
      apply (rule eG)
     apply (rule shS)
    apply (rule sumS')
    done
qed

theorem dScale_formula_witness:
  "shape (of_list [1, 1, 1, 1::real]) = shape (of_list [-1/2, 2/5, 7/10, 2::real]) \<and>
   shape (of_list [-1/2, 1/2, 1/2, 1::real]) = shape (of_list [-1/2, 2/5, 7/10, 2::real]) \<and>
   (0::int) < 3 \<and> (1/2::real) \<noteq> 0 \<and>
   (\<exists>grad_X grad_scale grad_zp.
      PerTensorOp_backward
       \<lparr>saved_X = of_list [-1/2, 2/5, 7/10, 2], saved_scale = 1/2, saved_zero_point = 3/5,
        other_q_min = 0, other_q_max = 3, other_X_fq = of_list [-1/2, 1/2, 1/2, 1],
        other_grad_factor = 2\<rparr> (of_list [1, 1, 1, 1]) = Inr (grad_X, grad_scale, grad_zp) \<and>
      shape grad_scale = [1] \<and>
      elem grad_scale [0] = - 12/5)"
  using dScale_formula [of "of_list [1, 1, 1, 1]" "of_list [-1/2, 2/5, 7/10, 2]"
      "of_list [-1/2, 1/2, 1/2, 1]" 0 3 "1/2" "3/5" 2]
  by (auto simp: of_list_def effective_zero_point_def py_int_def clamp_val_def
      torch_round_def Let_def eval_nat_numeral)

text \<open>
  Claim C6. With \<open>q_min < q_max\<close> (and a nonzero scale, a cached \<open>X_fq\<close> and a
  \<open>grad_Y\<close> of the shape of \<open>X\<close>), the backward pass returns, \<open>dX\<close> is \<open>dY\<close> masked
  by \<open>q_min \<le> Xq \<le> q_max\<close> on the unclamped code, and \<open>dZeroPoint\<close> is a one-element
  tensor holding the gradient factor times the sum over all elements of the local
  contribution times that \<open>dX\<close>; the local contribution is \<open>-scale\<close> where the clamped code
  equals \<open>q_min\<close> or \<open>q_max\<close> and \<open>0\<close> at the elements strictly inside.
\<close>

theorem dZeroPoint_formula:
  assumes "shape grad_Y = shape X" and "q_min < q_max" and "shape X_fq = shape X"
    and "scale \<noteq> 0"
  shows "\<exists>grad_X grad_scale grad_zp.
     PerTensorOp_backward
       \<lparr>saved_X = X, saved_scale = scale, saved_zero_point = zero_point,
        other_q_min = q_min, other_q_max = q_max, other_X_fq = X_fq,
        other_grad_factor = grad_factor\<rparr> grad_Y = Inr (grad_X, grad_scale, grad_zp) \<and>
     (\<forall>idx. valid_index (shape X) idx \<longrightarrow>
        elem grad_X idx =
          (let zp = of_int (effective_zero_point zero_point q_min q_max);
               Xq = torch_round (elem X idx / scale + zp)
           in if of_int q_min \<le> Xq \<and> Xq \<le> of_int q_max then elem grad_Y idx else 0)) \<and>
     shape grad_zp = [1] \<and>
     elem grad_zp [0] = grad_factor *
       (\<Sum>idx\<leftarrow>all_indices (shape X).
          (let zp = of_int (effective_zero_point zero_point q_min q_max);
               Xq = torch_round (elem X idx / scale + zp);
               Xc = clamp_val Xq q_min q_max;
               dX = (if of_int q_min \<le> Xq \<and> Xq \<le> of_int q_max then elem grad_Y idx else 0)
           in (if Xc = of_int q_min \<or> Xc = of_int q_max then - scale else 0) * dX))"
proof -
  define z :: real where "z = real_of_int (effective_zero_point zero_point q_min q_max)"
  let ?xq = "\<lambda>idx. torch_round (elem X idx / scale + z)"
  let ?gx = "\<lambda>idx. if of_int q_min \<le> ?xq idx \<and> ?xq idx \<le> of_int q_max then elem grad_Y idx else 0"
  let ?raw = "\<lambda>idx.
          (((if clamp_val (?xq idx) q_min q_max = of_int q_min then 1 else 0)
             + (if clamp_val (?xq idx) q_min q_max = of_int q_max then 1 else 0)) * (- scale)
           + (1 - ((if clamp_val (?xq idx) q_min q_max = of_int q_min then 1 else 0)
                    + (if clamp_val (?xq idx) q_min q_max = of_int q_max then 1 else 0))) * 0)
          * ?gx idx"
  let ?pw = "\<lambda>idx.
          (if clamp_val (?xq idx) q_min q_max = of_int q_min \<or>
              clamp_val (?xq idx) q_min q_max = of_int q_max then - scale else 0) * ?gx idx"
  obtain G gS gZ where
    bw: "PerTensorOp_backward
       \<lparr>saved_X = X, saved_scale = scale, saved_zero_point = zero_point,
        other_q_min = q_min, other_q_max = q_max, other_X_fq = X_fq,
        other_grad_factor = grad_factor\<rparr> grad_Y = Inr (G, gS, gZ)"
    and eG: "\<forall>idx. valid_index (shape X) idx \<longrightarrow> elem G idx = ?gx idx"
    and shZ: "shape gZ = [1]"
    and sumZ: "elem gZ [0] = (\<Sum>idx\<leftarrow>all_indices (shape X). ?raw idx) * grad_factor"
    using PerTensorOp_backward_sums [OF assms(1,3), of scale zero_point q_min q_max grad_factor]
    unfolding z_def by blast
  have ne: "real_of_int q_min \<noteq> real_of_int q_max" using assms(2) by simp
  have "?raw idx = ?pw idx" for idx
    using ne by simp
  then have "(\<Sum>idx\<leftarrow>all_indices (shape X). ?raw idx) = (\<Sum>idx\<leftarrow>all_indices (shape X). ?pw idx)"
    by presburger
  with sumZ have sumZ': "elem gZ [0] = grad_factor * (\<Sum>idx\<leftarrow>all_indices (shape X). ?pw idx)"
    by (simp only: mult.commute)
  show ?thesis
    apply (unfold Let_def z_def [symmetric])
    apply (rule exI [of _ G])
    apply (rule exI [of _ gS])
    apply (rule exI [of _ gZ])
    apply (intro conjI)
       apply (rule bw)
      apply (rule eG)
     apply (rule shZ)
    apply (rule sumZ')
    done
qed

theorem dZeroPoint_formula_witness:
  "shape (of_list [1, 1, 1, 1::real]) = shape (of_list [-1/2, 2/5, 7/10, 2::real]) \<and>
   (0::int) < 3 \<and>
   shape (of_list [-1/2, 1/2, 1/2, 1::real]) = shape (of_list [-1/2, 2/5, 7/10, 2::real]) \<and>
   (1/2::real) \<noteq> 0 \<and>
   (\<exists>grad_X grad_scale grad_zp.
      PerTensorOp_backward
       \<lparr>saved_X = of_list [-1/2, 2/5, 7/10, 2], saved_scale = 1/2, saved_zero_point = 3/5,
        other_q_min = 0, other_q_max = 3, other_X_fq = of_list [-1/2, 1/2, 1/2, 1],
        other_grad_factor = 2\<rparr> (of_list [1, 1, 1, 1]) = Inr (grad_X, grad_scale, grad_zp) \<and>
      shape grad_zp = [1] \<and>
      elem grad_zp [0] = - 1)"
  using dZeroPoint_formula [of "of_list [1, 1, 1, 1]" "of_list [-1/2, 2/5, 7/10, 2]"
      0 3 "of_list [-1/2, 1/2, 1/2, 1]" "1/2" "3/5" 2]
  by (auto simp: of_list_def effective_zero_point_def py_int_def clamp_val_def
      torch_round_def Let_def eval_nat_numeral)

text \<open>
  Claim C10. With \<open>q_min < q_max\<close>, at every element the three regime indicators of
  the scale gradient take the values 0 or 1 only and add up to exactly 1, so the
  contribution of an element comes from exactly one regime; the same holds for the
  saturate/unsaturate pair of the zero-point gradient. (That the codes lie in
  \<open>[q_min, q_max]\<close> is not needed.)
\<close>

theorem indicators_partition:
  assumes "q_min < q_max" and "valid_index (shape X_q) idx"
  shows "elem (indicate_small_scale X_q q_min) idx \<in> {0, 1} \<and>
         elem (indicate_big_scale X_q q_max) idx \<in> {0, 1} \<and>
         elem (indicate_middle_scale X_q q_min q_max) idx \<in> {0, 1} \<and>
         elem (indicate_small_scale X_q q_min) idx + elem (indicate_big_scale X_q q_max) idx
           + elem (indicate_middle_scale X_q q_min q_max) idx = 1 \<and>
         elem (indicate_saturate_zp X_q q_min q_max) idx \<in> {0, 1} \<and>
         elem (indicate_unsaturate_zp X_q q_min q_max) idx \<in> {0, 1} \<and>
         elem (indicate_saturate_zp X_q q_min q_max) idx
           + elem (indicate_unsaturate_zp X_q q_min q_max) idx = 1"
  using assms
  by (simp add: indicate_small_scale_def indicate_big_scale_def indicate_middle_scale_def
      indicate_saturate_zp_def indicate_unsaturate_zp_def ones_def elem_tmap2 bidx_valid)

theorem indicators_partition_witness:
  "(0::int) < 3 \<and> valid_index (shape (of_list [0, 1, 3::real])) [2] \<and>
   elem (indicate_small_scale (of_list [0, 1, 3]) 0) [2] = 0 \<and>
   elem (indicate_big_scale (of_list [0, 1, 3]) 3) [2] = 1 \<and>
   elem (indicate_middle_scale (of_list [0, 1, 3]) 0 3) [2] = 0 \<and>
   elem (indicate_saturate_zp (of_list [0, 1, 3]) 0 3) [2] = 1 \<and>
   elem (indicate_unsaturate_zp (of_list [0, 1, 3]) 0 3) [2] = 0"
  using indicators_partition [of 0 3 "of_list [0, 1, 3]" "[2]"]
  by (simp add: indicate_small_scale_def indicate_big_scale_def of_list_def valid_index_def
     indicate_saturate_zp_def elem_tmap2 bidx_def)

section \<open>The quantize primitive\<close>

text \<open>
  Claim C8. For a positive scale, an integer zero-point and integer codes in
  \<open>[q_min, q_max]\<close>, quantizing the dequantized value \<open>(q - zp) * scale\<close> gives the code
  back.
\<close>

theorem quantize_dequantize_roundtrip:
  assumes "0 < scale" and "q_min \<le> elem Q idx" and "elem Q idx \<le> q_max"
    and "valid_index (shape Q) idx"
  shows "elem (quantize (tmap (\<lambda>q. (of_int q - of_int zp) * scale) Q)
                 (scalar scale) (scalar (of_int zp)) q_min q_max True) idx = of_int (elem Q idx)"
proof -
  have "(of_int (elem Q idx) - of_int zp) * scale / scale + of_int zp = (of_int (elem Q idx) :: real)"
    using assms(1) by simp
  then show ?thesis
    using assms by (simp add: elem_quantize_scalar clamp_val_def)
qed

theorem quantize_dequantize_roundtrip_witness:
  "(0::real) < 1/2 \<and> (0::int) \<le> elem (of_list [0, 2, 3]) [1] \<and> elem (of_list [0, 2, 3::int]) [1] \<le> 3 \<and>
   valid_index (shape (of_list [0, 2, 3::int])) [1] \<and>
   elem (quantize (tmap (\<lambda>q. (of_int q - of_int 1) * (1/2)) (of_list [0, 2, 3]))
                 (scalar (1/2)) (scalar (of_int 1)) 0 3 True) [1] = 2"
  using quantize_dequantize_roundtrip [of "1/2" 0 "of_list [0, 2, 3]" "[1]" 3 1]
  by (simp add: of_list_def valid_index_def)

section \<open>The per-channel kernel against the per-tensor kernel\<close>

text \<open>
  On a tensor \<open>X\<close> of two or more dimensions the two kernels agree slice by slice. Take
  a channel axis of \<open>X\<close>, scale and zero-point vectors with one entry per channel, every
  scale nonzero, a \<open>dY\<close> of the shape of \<open>X\<close>, any channel \<open>c\<close> and any element of the
  slice of \<open>X\<close> along the channel axis at \<open>c\<close>. The per-channel forward pass succeeds and
  its output, sliced at \<open>c\<close>, is the output of the per-tensor forward pass on the slice of
  \<open>X\<close> with the scalar scale and zero-point of channel \<open>c\<close>. The per-channel backward
  pass succeeds, \<open>dScale\<close> and \<open>dZeroPoint\<close> hold one value per channel, and their
  entries at \<open>c\<close>, as well as \<open>dX\<close> on the slice, are what the per-tensor backward pass
  returns on the slices of \<open>X\<close> and \<open>dY\<close>.
\<close>

lemma per_channel_agrees_on_slices:
  assumes k: "ch_axis < length (shape X)"
    and sc: "shape scale = [shape X ! ch_axis]" and zp: "shape zero_point = [shape X ! ch_axis]"
    and gY: "shape grad_Y = shape X" and c: "c < shape X ! ch_axis"
    and v: "valid_index (shape (select X ch_axis c)) idx"
    and nz: "\<forall>c'<shape X ! ch_axis. elem scale [c'] \<noteq> 0"
    and n2: "2 \<le> length (shape X)"
  shows "\<exists>ctx X_fq grad_X grad_scale grad_zp gX gS gZ.
      PerChannelOp_forward X scale zero_point ch_axis q_min q_max grad_factor = Inr (ctx, X_fq) \<and>
      shape (select X_fq ch_axis c) =
        shape (snd (PerTensorOp_forward (select X ch_axis c) (elem scale [c]) (elem zero_point [c])
                      q_min q_max grad_factor)) \<and>
      elem (select X_fq ch_axis c) idx =
        elem (snd (PerTensorOp_forward (select X ch_axis c) (elem scale [c]) (elem zero_point [c])
                     q_min q_max grad_factor)) idx \<and>
      PerChannelOp_backward ctx grad_Y = Inr (grad_X, grad_scale, grad_zp) \<and>
      PerTensorOp_backward
        (fst (PerTensorOp_forward (select X ch_axis c) (elem scale [c]) (elem zero_point [c])
                q_min q_max grad_factor))
        (select grad_Y ch_axis c) = Inr (gX, gS, gZ) \<and>
      shape grad_scale = [shape X ! ch_axis] \<and> shape grad_zp = [shape X ! ch_axis] \<and>
      elem grad_scale [c] = elem gS [0] \<and> elem grad_zp [c] = elem gZ [0] \<and>
      elem (select grad_X ch_axis c) idx = elem gX idx"
proof -
  let ?k = ch_axis
  let ?s' = "take ?k (shape X) @ drop (Suc ?k) (shape X)"
  define ins where "ins j = take ?k j @ c # drop ?k j" for j :: "nat list"
  define zv where "zv = effective_zero_point_vec zero_point q_min q_max"
  define sc_c where "sc_c = elem scale [c]"
  define z_c where "z_c = real_of_int (effective_zero_point (elem zero_point [c]) q_min q_max)"
  define X_fq where "X_fq =
     \<lparr>shape = shape X,
      elem = \<lambda>idx. (clamp_val (torch_round (elem X idx / elem scale [idx ! ?k]
                                    + of_int (elem zv [idx ! ?k]))) q_min q_max
                     - of_int (elem zv [idx ! ?k])) * elem scale [idx ! ?k]\<rparr>"
  define ctx where "ctx =
     \<lparr>pc_saved_X = X, pc_saved_scale = scale, pc_saved_zero_point = zero_point,
      pc_q_min = q_min, pc_q_max = q_max, pc_X_fq = X_fq, pc_ch_axis = ?k,
      pc_grad_factor = grad_factor\<rparr>"
  define Xs where "Xs = select X ?k c"
  define Ys where "Ys = select grad_Y ?k c"
  define X_fq' where "X_fq' = fake_quantize_per_tensor_affine Xs sc_c
     (effective_zero_point (elem zero_point [c]) q_min q_max) q_min q_max"
  have szv: "shape zv = [shape X ! ?k]" by (simp add: zv_def effective_zero_point_vec_def zp)
  have ezv: "real_of_int (elem zv [c]) = z_c"
    by (simp add: zv_def z_c_def effective_zero_point_vec_def effective_zero_point_def)
  have sfq: "shape X_fq = shape X" by (simp add: X_fq_def)
  have fwd: "PerChannelOp_forward X scale zero_point ?k q_min q_max grad_factor = Inr (ctx, X_fq)"
    using k sc szv
    by (simp add: PerChannelOp_forward_def fake_quantize_per_channel_affine_def Let_def
        zv_def [symmetric] X_fq_def [symmetric] ctx_def)
  have pt: "PerTensorOp_forward (select X ?k c) (elem scale [c]) (elem zero_point [c]) q_min q_max grad_factor =
      (\<lparr>saved_X = Xs, saved_scale = sc_c, saved_zero_point = elem zero_point [c],
        other_q_min = q_min, other_q_max = q_max, other_X_fq = X_fq',
        other_grad_factor = grad_factor\<rparr>, X_fq')"
    by (simp add: PerTensorOp_forward_def Let_def Xs_def sc_c_def X_fq'_def)
  have sXs: "shape Xs = ?s'" by (simp add: Xs_def)
  have sYs: "shape Ys = shape Xs" by (simp add: Ys_def Xs_def gY)
  have sfq': "shape X_fq' = shape Xs" by (simp add: X_fq'_def fake_quantize_per_tensor_affine_def)
  have insk: "ins j ! ?k = c" and insv: "valid_index (shape X) (ins j)"
    if "valid_index ?s' j" for j
    using valid_index_insert(1,2) [OF k c that] by (simp_all add: ins_def)
  have eXs: "elem Xs j = elem X (ins j)" for j by (simp add: Xs_def ins_def)
  have eYs: "elem Ys j = elem grad_Y (ins j)" for j by (simp add: Ys_def ins_def)
  have efq: "elem X_fq (ins j) = elem X_fq' j" if "valid_index ?s' j" for j
    using insk [OF that]
    by (simp add: X_fq_def X_fq'_def fake_quantize_per_tensor_affine_def eXs ezv sc_c_def z_c_def [symmetric])
  let ?xq = "\<lambda>idx. torch_round (elem X idx * (1 / elem scale [idx ! ?k]) + of_int (elem zv [idx ! ?k]))"
  let ?gx = "\<lambda>idx. if of_int q_min \<le> ?xq idx \<and> ?xq idx \<le> of_int q_max then elem grad_Y idx else 0"
  let ?Fs = "\<lambda>idx.
          ((if clamp_val (?xq idx) q_min q_max = of_int q_min then 1 else 0) * (of_int q_min - of_int (elem zv [idx ! ?k]))
           + (if clamp_val (?xq idx) q_min q_max = of_int q_max then 1 else 0) * (of_int q_max - of_int (elem zv [idx ! ?k]))
           + (1 - (if clamp_val (?xq idx) q_min q_max = of_int q_min then 1 else 0)
                - (if clamp_val (?xq idx) q_min q_max = of_int q_max then 1 else 0))
               * ((elem X_fq idx - elem X idx) / elem scale [idx ! ?k])) * ?gx idx"
  let ?Fz = "\<lambda>idx.
          (((if clamp_val (?xq idx) q_min q_max = of_int q_min then 1 else 0)
             + (if clamp_val (?xq idx) q_min q_max = of_int q_max then 1 else 0)) * (- elem scale [idx ! ?k])
           + (1 - ((if clamp_val (?xq idx) q_min q_max = of_int q_min then 1 else 0)
                    + (if clamp_val (?xq idx) q_min q_max = of_int q_max then 1 else 0))) * 0)
          * ?gx idx"
  obtain G gS gZ where
    bw: "PerChannelOp_backward ctx grad_Y = Inr (G, gS, gZ)"
    and eG: "\<forall>idx. valid_index (shape X) idx \<longrightarrow> elem G idx = ?gx idx"
    and shS: "shape gS = [shape X ! ?k]" and shZ: "shape gZ = [shape X ! ?k]"
    and sums: "\<forall>c<shape X ! ?k.
        elem gS [c] = (\<Sum>idx\<leftarrow>all_indices ?s'. ?Fs (take ?k idx @ c # drop ?k idx)) * grad_factor \<and>
        elem gZ [c] = (\<Sum>idx\<leftarrow>all_indices ?s'. ?Fz (take ?k idx @ c # drop ?k idx)) * grad_factor"
    using PerChannelOp_backward_sums [OF k sc zp gY sfq, of q_min q_max grad_factor] n2
    unfolding ctx_def zv_def by blast
  let ?xq' = "\<lambda>idx. torch_round (elem Xs idx / sc_c + z_c)"
  let ?gx' = "\<lambda>idx. if of_int q_min \<le> ?xq' idx \<and> ?xq' idx \<le> of_int q_max then elem Ys idx else 0"
  let ?Fs' = "\<lambda>idx.
          ((if clamp_val (?xq' idx) q_min q_max = of_int q_min then 1 else 0) * (of_int q_min - z_c)
           + (if clamp_val (?xq' idx) q_min q_max = of_int q_max then 1 else 0) * (of_int q_max - z_c)
           + (1 - (if clamp_val (?xq' idx) q_min q_max = of_int q_min then 1 else 0)
                - (if clamp_val (?xq' idx) q_min q_max = of_int q_max then 1 else 0))
               * ((elem X_fq' idx - elem Xs idx) / sc_c)) * ?gx' idx"
  let ?Fz' = "\<lambda>idx.
          (((if clamp_val (?xq' idx) q_min q_max = of_int q_min then 1 else 0)
             + (if clamp_val (?xq' idx) q_min q_max = of_int q_max then 1 else 0)) * (- sc_c)
           + (1 - ((if clamp_val (?xq' idx) q_min q_max = of_int q_min then 1 else 0)
                    + (if clamp_val (?xq' idx) q_min q_max = of_int q_max then 1 else 0))) * 0)
          * ?gx' idx"
  obtain G' gS' gZ' where
    bw': "PerTensorOp_backward
       \<lparr>saved_X = Xs, saved_scale = sc_c, saved_zero_point = elem zero_point [c],
        other_q_min = q_min, other_q_max = q_max, other_X_fq = X_fq',
        other_grad_factor = grad_factor\<rparr> Ys = Inr (G', gS', gZ')"
    and eG': "\<forall>idx. valid_index (shape Xs) idx \<longrightarrow> elem G' idx = ?gx' idx"
    and sumS': "elem gS' [0] = (\<Sum>idx\<leftarrow>all_indices (shape Xs). ?Fs' idx) * grad_factor"
    and sumZ': "elem gZ' [0] = (\<Sum>idx\<leftarrow>all_indices (shape Xs). ?Fz' idx) * grad_factor"
    using PerTensorOp_backward_sums [OF sYs sfq', of sc_c "elem zero_point [c]" q_min q_max grad_factor]
    unfolding z_c_def by blast
  have gx_eq: "?gx (ins j) = ?gx' j" if "valid_index ?s' j" for j
    using insk [OF that] by (simp add: eXs eYs ezv sc_c_def)
  have Fs_eq: "?Fs (ins j) = ?Fs' j" if "valid_index ?s' j" for j
    using insk [OF that] efq [OF that] by (simp add: eXs eYs ezv sc_c_def)
  have Fz_eq: "?Fz (ins j) = ?Fz' j" if "valid_index ?s' j" for j
    using insk [OF that] by (simp add: eXs eYs ezv sc_c_def)
  have S_eq: "elem gS [c] = elem gS' [0]"
  proof -
    have "elem gS [c] = (\<Sum>idx\<leftarrow>all_indices ?s'. ?Fs (ins idx)) * grad_factor"
      using sums c by (simp only: ins_def)
    also have "(\<Sum>idx\<leftarrow>all_indices ?s'. ?Fs (ins idx)) = (\<Sum>idx\<leftarrow>all_indices ?s'. ?Fs' idx)"
      by (rule sum_list_indices_cong) (rule Fs_eq)
    finally show ?thesis by (simp only: sumS' sXs)
  qed
  have Z_eq: "elem gZ [c] = elem gZ' [0]"
  proof -
    have "elem gZ [c] = (\<Sum>idx\<leftarrow>all_indices ?s'. ?Fz (ins idx)) * grad_factor"
      using sums c by (simp only: ins_def)
    also have "(\<Sum>idx\<leftarrow>all_indices ?s'. ?Fz (ins idx)) = (\<Sum>idx\<leftarrow>all_indices ?s'. ?Fz' idx)"
      by (rule sum_list_indices_cong) (rule Fz_eq)
    finally show ?thesis by (simp only: sumZ' sXs)
  qed
  from v have v': "valid_index ?s' idx" by simp
  have G_eq: "elem (select G ?k c) idx = elem G' idx"
  proof -
    have "elem (select G ?k c) idx = elem G (ins idx)" by (simp add: ins_def)
    also have "\<dots> = ?gx (ins idx)" using eG insv [OF v'] by blast
    also have "\<dots> = ?gx' idx" by (rule gx_eq [OF v'])
    also have "\<dots> = elem G' idx" using eG' v' by (simp only: sXs)
    finally show ?thesis .
  qed
  have f_shape: "shape (select X_fq ?k c) = shape X_fq'"
    by (simp add: sfq sfq' sXs)
  have f_elem: "elem (select X_fq ?k c) idx = elem X_fq' idx"
    using efq [OF v'] by (simp add: ins_def)
  show ?thesis
    unfolding pt fst_conv snd_conv
    apply (rule exI [of _ ctx])
    apply (rule exI [of _ X_fq])
    apply (rule exI [of _ G])
    apply (rule exI [of _ gS])
    apply (rule exI [of _ gZ])
    apply (rule exI [of _ G'])
    apply (rule exI [of _ gS'])
    apply (rule exI [of _ gZ'])
    apply (intro conjI)
             apply (rule fwd)
            apply (rule f_shape)
           apply (rule f_elem)
          apply (rule bw)
         apply (simp only: Ys_def [symmetric] bw')
        apply (rule shS)
       apply (rule shZ)
      apply (rule S_eq)
     apply (rule Z_eq)
    apply (rule G_eq)
    done
qed

lemma per_channel_agrees_on_slices_example:
  "(0::nat) < length (shape \<lparr>shape = [2, 3], elem = \<lambda>idx. [[0, 2/5, 3/5], [1, 2, - 1::real]] ! (idx ! 0) ! (idx ! 1)\<rparr>) \<and>
   shape (of_list [1/2, 1::real]) = [shape \<lparr>shape = [2, 3], elem = \<lambda>idx. [[0, 2/5, 3/5], [1, 2, - 1::real]] ! (idx ! 0) ! (idx ! 1)\<rparr> ! 0] \<and>
   shape (of_list [0, 3/5::real]) = [shape \<lparr>shape = [2, 3], elem = \<lambda>idx. [[0, 2/5, 3/5], [1, 2, - 1::real]] ! (idx ! 0) ! (idx ! 1)\<rparr> ! 0] \<and>
   shape \<lparr>shape = [2, 3], elem = \<lambda>idx. [[1, 2, 3], [4, 5, 6::real]] ! (idx ! 0) ! (idx ! 1)\<rparr> =
     shape \<lparr>shape = [2, 3], elem = \<lambda>idx. [[0, 2/5, 3/5], [1, 2, - 1::real]] ! (idx ! 0) ! (idx ! 1)\<rparr> \<and>
   (1::nat) < shape \<lparr>shape = [2, 3], elem = \<lambda>idx. [[0, 2/5, 3/5], [1, 2, - 1::real]] ! (idx ! 0) ! (idx ! 1)\<rparr> ! 0 \<and>
   valid_index (shape (select \<lparr>shape = [2, 3], elem = \<lambda>idx. [[0, 2/5, 3/5], [1, 2, - 1::real]] ! (idx ! 0) ! (idx ! 1)\<rparr> 0 1)) [2] \<and>
   elem (of_list [1/2, 1::real]) [0] \<noteq> 0 \<and> elem (of_list [1/2, 1::real]) [1] \<noteq> 0 \<and>
   (\<exists>ctx X_fq grad_X grad_scale grad_zp.
      PerChannelOp_forward
        \<lparr>shape = [2, 3], elem = \<lambda>idx. [[0, 2/5, 3/5], [1, 2, - 1]] ! (idx ! 0) ! (idx ! 1)\<rparr>
        (of_list [1/2, 1]) (of_list [0, 3/5]) 0 0 3 2 = Inr (ctx, X_fq) \<and>
      PerChannelOp_backward ctx
        \<lparr>shape = [2, 3], elem = \<lambda>idx. [[1, 2, 3], [4, 5, 6]] ! (idx ! 0) ! (idx ! 1)\<rparr>
        = Inr (grad_X, grad_scale, grad_zp) \<and>
      elem X_fq [1, 2] = - 1 \<and> elem grad_X [1, 2] = 6 \<and>
      elem grad_scale [1] = 8 \<and> elem grad_zp [1] = - 22)"
proof -
  let ?X = "\<lparr>shape = [2, 3], elem = \<lambda>idx. [[0, 2/5, 3/5], [1, 2, - 1::real]] ! (idx ! 0) ! (idx ! 1)\<rparr>"
  let ?Y = "\<lparr>shape = [2, 3], elem = \<lambda>idx. [[1, 2, 3], [4, 5, 6::real]] ! (idx ! 0) ! (idx ! 1)\<rparr>"
  have h1: "(0::nat) < length (shape ?X)" by simp
  have h2: "shape (of_list [1/2, 1::real]) = [shape ?X ! 0]" by (simp add: of_list_def)
  have h3: "shape (of_list [0, 3/5::real]) = [shape ?X ! 0]" by (simp add: of_list_def)
  have h4: "shape ?Y = shape ?X" by simp
  have h5: "(1::nat) < shape ?X ! 0" by simp
  have h6: "valid_index (shape (select ?X 0 1)) [2]" by (simp add: select_def valid_index_def)
  have h7: "\<forall>c'<shape ?X ! 0. elem (of_list [1/2, 1::real]) [c'] \<noteq> 0"
    by (simp add: of_list_def less_Suc_eq eval_nat_numeral)
  have h8: "elem (of_list [1/2, 1::real]) [0] \<noteq> 0" by (simp add: of_list_def)
  have h9: "elem (of_list [1/2, 1::real]) [1] \<noteq> 0" by (simp add: of_list_def)
  have h10: "2 \<le> length (shape ?X)" by simp
  note r = per_channel_agrees_on_slices [OF h1 h2 h3 h4 h5 h6 h7 h10, of 0 3 2]
  then obtain ctx X_fq grad_X grad_scale grad_zp gX gS gZ where
    fwd: "PerChannelOp_forward ?X (of_list [1/2, 1]) (of_list [0, 3/5]) 0 0 3 2 = Inr (ctx, X_fq)"
    and fe: "elem (select X_fq 0 1) [2] =
        elem (snd (PerTensorOp_forward (select ?X 0 1) (elem (of_list [1/2, 1]) [1])
                     (elem (of_list [0, 3/5]) [1]) 0 3 2)) [2]"
    and bw: "PerChannelOp_backward ctx ?Y = Inr (grad_X, grad_scale, grad_zp)"
    and pt: "PerTensorOp_backward
        (fst (PerTensorOp_forward (select ?X 0 1) (elem (of_list [1/2, 1]) [1])
                (elem (of_list [0, 3/5]) [1]) 0 3 2))
        (select ?Y 0 1) = Inr (gX, gS, gZ)"
    and es: "elem grad_scale [1] = elem gS [0]" and ez: "elem grad_zp [1] = elem gZ [0]"
    and ex: "elem (select grad_X 0 1) [2] = elem gX [2]"
    by blast
  let ?Xs = "select ?X 0 1"
  let ?Ys = "select ?Y 0 1"
  let ?fq = "fake_quantize_per_tensor_affine ?Xs 1 (effective_zero_point (3/5) 0 3) 0 3"
  have ezp: "effective_zero_point (3/5) 0 3 = 1"
    by (simp add: effective_zero_point_def py_int_def clamp_val_def)
  have u3: "[0..<3] = [0, 1, 2::nat]" by code_simp
  have v2: "valid_index (shape ?Xs) [2]" by (rule h6)
  have r1: "torch_round 2 = 2" "torch_round 3 = 3" "torch_round 0 = 0"
    by (simp_all add: torch_round_def)
  from PerTensorOp_backward_sums [of ?Ys ?Xs ?fq 1 "3/5" 0 3 2]
  obtain G S Z where
    pt': "PerTensorOp_backward
       \<lparr>saved_X = ?Xs, saved_scale = 1, saved_zero_point = 3/5,
        other_q_min = 0, other_q_max = 3, other_X_fq = ?fq,
        other_grad_factor = 2\<rparr> ?Ys = Inr (G, S, Z)"
    and g2: "elem G [2] = 6" and s0: "elem S [0] = 8" and z0: "elem Z [0] = - 22"
    using v2
    by (auto simp: u3 ezp r1 select_def fake_quantize_per_tensor_affine_def clamp_val_def)
  have "fst (PerTensorOp_forward ?Xs (elem (of_list [1/2, 1]) [1]) (elem (of_list [0, 3/5]) [1]) 0 3 2) =
       \<lparr>saved_X = ?Xs, saved_scale = 1, saved_zero_point = 3/5,
        other_q_min = 0, other_q_max = 3, other_X_fq = ?fq,
        other_grad_factor = 2\<rparr>"
    by (simp add: PerTensorOp_forward_def of_list_def Let_def)
  with pt pt' have eqs: "gX = G" "gS = S" "gZ = Z" by simp_all
  have "elem (snd (PerTensorOp_forward ?Xs (elem (of_list [1/2, 1]) [1])
                     (elem (of_list [0, 3/5]) [1]) 0 3 2)) [2] = - 1"
    by (simp add: PerTensorOp_forward_def of_list_def Let_def fake_quantize_per_tensor_affine_def
        ezp select_def clamp_val_def r1)
  with fe have c1: "elem X_fq [1, 2] = - 1" by (simp add: select_def)
  from ex g2 eqs have c2: "elem grad_X [1, 2] = 6" by (simp add: select_def)
  from es s0 eqs have c3: "elem grad_scale [1] = 8" by simp
  from ez z0 eqs have c4: "elem grad_zp [1] = - 22" by simp
  show ?thesis
    using fwd bw c1 c2 c3 c4 by (intro conjI h1 h2 h3 h4 h5 h6 h8 h9) blast
qed

text \<open>
  Claim C7. The claim has the per-channel \<open>dScale\<close> and \<open>dZeroPoint\<close> hold one value
  per channel, equal to the per-tensor result on the channel's slice, for every tensor
  \<open>X\<close>. On a one-dimensional \<open>X\<close> the tuple of axes to reduce is empty and the
  reduction adds up every element: for \<open>X = [-0.5, 1.5]\<close> on channel axis \<open>0\<close> with
  scales \<open>[0.5, 0.5]\<close>, zero-points \<open>[1, 0]\<close>, the range \<open>[0, 3]\<close>, gradient factor
  \<open>1\<close> and \<open>dY = [1, 1]\<close>, forward and backward pass succeed and the backward pass
  returns a zero-dimensional \<open>dScale = 2\<close> and \<open>dZeroPoint = -1\<close>, the totals over both
  channels, while the per-tensor kernel on the two slices gives \<open>dScale = -1\<close> and
  \<open>dScale = 3\<close>.
\<close>

theorem per_channel_reduction_one_dim:
  "\<not> isl (PerChannelOp_forward (of_list [- 1/2, 3/2]) (of_list [1/2, 1/2]) (of_list [1, 0]) 0 0 3 1) \<and>
   \<not> isl (PerChannelOp_backward
       (fst (projr (PerChannelOp_forward (of_list [- 1/2, 3/2]) (of_list [1/2, 1/2]) (of_list [1, 0]) 0 0 3 1)))
       (of_list [1, 1])) \<and>
   shape (fst (snd (projr (PerChannelOp_backward
       (fst (projr (PerChannelOp_forward (of_list [- 1/2, 3/2]) (of_list [1/2, 1/2]) (of_list [1, 0]) 0 0 3 1)))
       (of_list [1, 1]))))) = [] \<and>
   elem (fst (snd (projr (PerChannelOp_backward
       (fst (projr (PerChannelOp_forward (of_list [- 1/2, 3/2]) (of_list [1/2, 1/2]) (of_list [1, 0]) 0 0 3 1)))
       (of_list [1, 1]))))) [] = 2 \<and>
   shape (snd (snd (projr (PerChannelOp_backward
       (fst (projr (PerChannelOp_forward (of_list [- 1/2, 3/2]) (of_list [1/2, 1/2]) (of_list [1, 0]) 0 0 3 1)))
       (of_list [1, 1]))))) = [] \<and>
   elem (snd (snd (projr (PerChannelOp_backward
       (fst (projr (PerChannelOp_forward (of_list [- 1/2, 3/2]) (of_list [1/2, 1/2]) (of_list [1, 0]) 0 0 3 1)))
       (of_list [1, 1]))))) [] = - 1 \<and>
   elem (fst (snd (projr (PerTensorOp_backward
       (fst (PerTensorOp_forward (select (of_list [- 1/2, 3/2]) 0 0) (1/2) 1 0 3 1))
       (select (of_list [1, 1]) 0 0))))) [0] = - 1 \<and>
   elem (fst (snd (projr (PerTensorOp_backward
       (fst (PerTensorOp_forward (select (of_list [- 1/2, 3/2]) 0 1) (1/2) 0 0 3 1))
       (select (of_list [1, 1]) 0 1))))) [0] = 3"
proof -
  let ?X = "of_list [- 1/2, 3/2::real]"
  let ?S = "of_list [1/2, 1/2::real]"
  let ?Z = "of_list [1, 0::real]"
  let ?Y = "of_list [1, 1::real]"
  define zv where "zv = effective_zero_point_vec ?Z 0 3"
  define X_fq where "X_fq =
     \<lparr>shape = shape ?X,
      elem = \<lambda>idx. (clamp_val (torch_round (elem ?X idx / elem ?S [idx ! 0]
                                    + of_int (elem zv [idx ! 0]))) 0 3
                     - of_int (elem zv [idx ! 0])) * elem ?S [idx ! 0]\<rparr>"
  define ctx where "ctx =
     \<lparr>pc_saved_X = ?X, pc_saved_scale = ?S, pc_saved_zero_point = ?Z,
      pc_q_min = 0, pc_q_max = 3, pc_X_fq = X_fq, pc_ch_axis = 0,
      pc_grad_factor = 1\<rparr>"
  have k: "0 < length (shape ?X)" by (simp add: of_list_def)
  have sc: "shape ?S = [shape ?X ! 0]" by (simp add: of_list_def)
  have zp: "shape ?Z = [shape ?X ! 0]" by (simp add: of_list_def)
  have gY: "shape ?Y = shape ?X" by (simp add: of_list_def)
  have sfq: "shape X_fq = shape ?X" by (simp add: X_fq_def)
  have n1: "length (shape ?X) = 1" by (simp add: of_list_def)
  have fwd: "PerChannelOp_forward ?X ?S ?Z 0 0 3 1 = Inr (ctx, X_fq)"
    unfolding ctx_def X_fq_def zv_def
    by (simp add: PerChannelOp_forward_def fake_quantize_per_channel_affine_def Let_def of_list_def
        effective_zero_point_vec_def)
  have ai: "all_indices (shape ?X) = [[0], [Suc 0]]"
    by (simp add: of_list_def eval_nat_numeral)
  have z0: "elem zv [0] = 1" and z1: "elem zv [Suc 0] = 0"
    by (simp_all add: zv_def effective_zero_point_vec_def of_list_def py_int_def clamp_val_def)
  have r: "torch_round 0 = 0" "torch_round 3 = 3" "torch_round 1 = 1" "torch_round 2 = 2"
    by (simp_all add: torch_round_def)
  let ?xq = "\<lambda>idx. torch_round (elem ?X idx * (1 / elem ?S [idx ! 0]) + real_of_int (elem zv [idx ! 0]))"
  let ?gx = "\<lambda>idx. if real_of_int 0 \<le> ?xq idx \<and> ?xq idx \<le> real_of_int 3 then elem ?Y idx else 0"
  let ?Fs = "\<lambda>idx.
          ((if clamp_val (?xq idx) 0 3 = real_of_int 0 then 1 else 0) * (real_of_int 0 - real_of_int (elem zv [idx ! 0]))
           + (if clamp_val (?xq idx) 0 3 = real_of_int 3 then 1 else 0) * (real_of_int 3 - real_of_int (elem zv [idx ! 0]))
           + (1 - (if clamp_val (?xq idx) 0 3 = real_of_int 0 then 1 else 0)
                - (if clamp_val (?xq idx) 0 3 = real_of_int 3 then 1 else 0))
               * ((elem X_fq idx - elem ?X idx) / elem ?S [idx ! 0])) * ?gx idx"
  let ?Fz = "\<lambda>idx.
          (((if clamp_val (?xq idx) 0 3 = real_of_int 0 then 1 else 0)
             + (if clamp_val (?xq idx) 0 3 = real_of_int 3 then 1 else 0)) * (- elem ?S [idx ! 0])
           + (1 - ((if clamp_val (?xq idx) 0 3 = real_of_int 0 then 1 else 0)
                    + (if clamp_val (?xq idx) 0 3 = real_of_int 3 then 1 else 0))) * 0)
          * ?gx idx"
  obtain G gS gZ where
    bw: "PerChannelOp_backward ctx ?Y = Inr (G, gS, gZ)"
    and shS: "shape gS = []" and shZ: "shape gZ = []"
    and eS0: "elem gS [] = (\<Sum>idx\<leftarrow>all_indices (shape ?X). ?Fs idx) * 1"
    and eZ0: "elem gZ [] = (\<Sum>idx\<leftarrow>all_indices (shape ?X). ?Fz idx) * 1"
    using PerChannelOp_backward_one_dim [OF k sc zp gY sfq n1, of 0 3 1]
    unfolding ctx_def zv_def by blast
  have x0: "?xq [0] = 0" and x1: "?xq [Suc 0] = 3"
    by (simp_all add: z0 z1 r of_list_def)
  have f0: "elem X_fq [0] = - 1/2" and f1: "elem X_fq [Suc 0] = 3/2"
    by (simp_all add: X_fq_def z0 z1 r of_list_def clamp_val_def)
  have c0: "clamp_val 0 0 3 = 0" and c3: "clamp_val 3 0 3 = 3"
    by (simp_all add: clamp_val_def)
  have Fs0: "?Fs [0] = - 1" and Fs1: "?Fs [Suc 0] = 3"
    unfolding x0 x1 f0 f1 c0 c3 by (simp_all add: z0 z1 of_list_def)
  have Fz0: "?Fz [0] = - 1/2" and Fz1: "?Fz [Suc 0] = - 1/2"
    unfolding x0 x1 c0 c3 by (simp_all add: of_list_def)
  have eS: "elem gS [] = 2"
    unfolding eS0 ai using Fs0 Fs1 by simp
  have eZ: "elem gZ [] = - 1"
    unfolding eZ0 ai using Fz0 Fz1 by simp
  have ezp0: "effective_zero_point 1 0 3 = 1" and ezp1: "effective_zero_point 0 0 3 = 0"
    by (simp_all add: effective_zero_point_def py_int_def clamp_val_def)
  let ?fq0 = "fake_quantize_per_tensor_affine (select ?X 0 0) (1/2) (effective_zero_point 1 0 3) 0 3"
  let ?fq1 = "fake_quantize_per_tensor_affine (select ?X 0 1) (1/2) (effective_zero_point 0 0 3) 0 3"
  from PerTensorOp_backward_sums [of "select ?Y 0 0" "select ?X 0 0" ?fq0 "1/2" 1 0 3 1]
  obtain G0 S0 Z0 where
    pt0: "PerTensorOp_backward
       \<lparr>saved_X = select ?X 0 0, saved_scale = 1/2, saved_zero_point = 1,
        other_q_min = 0, other_q_max = 3, other_X_fq = ?fq0,
        other_grad_factor = 1\<rparr> (select ?Y 0 0) = Inr (G0, S0, Z0)"
    and s0: "elem S0 [0] = - 1"
    by (auto simp: ezp0 r select_def of_list_def fake_quantize_per_tensor_affine_def clamp_val_def)
  from PerTensorOp_backward_sums [of "select ?Y 0 1" "select ?X 0 1" ?fq1 "1/2" 0 0 3 1]
  obtain G1 S1 Z1 where
    pt1: "PerTensorOp_backward
       \<lparr>saved_X = select ?X 0 1, saved_scale = 1/2, saved_zero_point = 0,
        other_q_min = 0, other_q_max = 3, other_X_fq = ?fq1,
        other_grad_factor = 1\<rparr> (select ?Y 0 1) = Inr (G1, S1, Z1)"
    and s1: "elem S1 [0] = 3"
    by (auto simp: ezp1 r select_def of_list_def fake_quantize_per_tensor_affine_def clamp_val_def)
  have p0: "fst (PerTensorOp_forward (select ?X 0 0) (1/2) 1 0 3 1) =
       \<lparr>saved_X = select ?X 0 0, saved_scale = 1/2, saved_zero_point = 1,
        other_q_min = 0, other_q_max = 3, other_X_fq = ?fq0,
        other_grad_factor = 1\<rparr>"
    by (simp add: PerTensorOp_forward_def Let_def)
  have p1: "fst (PerTensorOp_forward (select ?X 0 1) (1/2) 0 0 3 1) =
       \<lparr>saved_X = select ?X 0 1, saved_scale = 1/2, saved_zero_point = 0,
        other_q_min = 0, other_q_max = 3, other_X_fq = ?fq1,
        other_grad_factor = 1\<rparr>"
    by (simp add: PerTensorOp_forward_def Let_def)
  show ?thesis
    unfolding p0 p1 pt0 pt1 fwd
    by (simp add: bw shS shZ eS eZ s0 s1)
qed

end
